theory Spec2Isabelle
  imports Main "HOL-Library.Sublist" "HOL-Library.AList"
begin

section \<open>Python string primitives used by the sources\<close>

text \<open>
  Python \<^verbatim>\<open>str\<close> values are modelled as \<^typ>\<open>string\<close>, a character standing
  for the code point of the same number (U+0000 to U+00FF). The sources only compare,
  cut and concatenate text, so the functions below give the few built-ins they call.
\<close>

text \<open>\<^verbatim>\<open>s.startswith(p)\<close>\<close>

fun startswith :: "string \<Rightarrow> string \<Rightarrow> bool" where
  "startswith s [] = True"
| "startswith [] (p # ps) = False"
| "startswith (c # cs) (p # ps) = (c = p \<and> startswith cs ps)"

text \<open>\<^verbatim>\<open>s.endswith(p)\<close>\<close>

definition endswith :: "string \<Rightarrow> string \<Rightarrow> bool" where
  "endswith s p = startswith (rev s) (rev p)"

text \<open>\<^verbatim>\<open>sub in s\<close> on strings: \<open>sub\<close> occurs in \<open>s\<close> as a contiguous piece.\<close>

fun py_in :: "string \<Rightarrow> string \<Rightarrow> bool" where
  "py_in sub [] = (sub = [])"
| "py_in sub (c # cs) = (startswith (c # cs) sub \<or> py_in sub cs)"

text \<open>
  \<^verbatim>\<open>s.split(sep)\<close> for a one-character separator: the pieces between the
  separators, in order. The result always has at least one element
  (\<^verbatim>\<open>"".split(",") == [""]\<close>). The first argument is the piece being read.
\<close>

fun split_acc :: "string \<Rightarrow> char \<Rightarrow> string \<Rightarrow> string list" where
  "split_acc acc sep [] = [acc]"
| "split_acc acc sep (c # cs) =
     (if c = sep then acc # split_acc [] sep cs else split_acc (acc @ [c]) sep cs)"

definition split :: "string \<Rightarrow> char \<Rightarrow> string list" where
  "split s sep = split_acc [] sep s"

text \<open>\<^verbatim>\<open>s.split('.')[0]\<close>: the index 0 always exists.\<close>

definition first_label :: "string \<Rightarrow> string" where
  "first_label s = hd (split s CHR ''.'')"

text \<open>
  \<^verbatim>\<open>s.lower()\<close>: the capital letters of this range are \<^verbatim>\<open>A\<close> to \<^verbatim>\<open>Z\<close> and
  U+00C0 to U+00DE without the multiplication sign U+00D7; each has its small letter 32
  code points further on. Every other character is left as it is.
\<close>

definition is_upper :: "nat \<Rightarrow> bool" where
  "is_upper n = (65 \<le> n \<and> n \<le> 90 \<or> 192 \<le> n \<and> n \<le> 214 \<or> 216 \<le> n \<and> n \<le> 222)"

definition lower_char :: "char \<Rightarrow> char" where
  "lower_char c =
     (let n = (of_char c :: nat) in if is_upper n then char_of (n + 32) else c)"

definition lower :: "string \<Rightarrow> string" where
  "lower s = map lower_char s"

text \<open>
  White space as \<^verbatim>\<open>str.strip()\<close> and the regular expression class \<^verbatim>\<open>\s\<close> see it:
  the blank, the control characters U+0009 to U+000D and U+001C to U+001F, the next-line
  character U+0085 and the no-break space U+00A0.
\<close>

definition is_space :: "char \<Rightarrow> bool" where
  "is_space c = (c \<in> set [CHR '' '', CHR 0x09, CHR 0x0A, CHR 0x0B, CHR 0x0C, CHR 0x0D,
                            CHR 0x1C, CHR 0x1D, CHR 0x1E, CHR 0x1F, CHR 0x85, CHR 0xA0])"

definition strip :: "string \<Rightarrow> string" where
  "strip s = rev (dropWhile is_space (rev (dropWhile is_space s)))"

text \<open>\<^verbatim>\<open>sep.join(xs)\<close>\<close>

fun join :: "string \<Rightarrow> string list \<Rightarrow> string" where
  "join sep [] = []"
| "join sep [x] = x"
| "join sep (x # y # ys) = x @ sep @ join sep (y # ys)"

section \<open>Name resolution\<close>

subsection \<open>\<^verbatim>\<open>vm_name_utils.VMNameManager\<close>\<close>

text \<open>
  A Python \<^verbatim>\<open>dict\<close> is iterated in insertion order, and the first vanity prefix that
  matches wins, so the vanity table is an association list.
\<close>

record VMNameManager =
  vanity_to_hostname :: "(string \<times> string) list"
  domain_suffixes :: "string list"

text \<open>The constructor's defaults.\<close>

definition default_name_manager :: VMNameManager where
  "default_name_manager =
     \<lparr> vanity_to_hostname = [(''nlq'', ''guedfocnlq03''), (''py-server'', ''guedfocdsml01'')],
       domain_suffixes = [''.dev.tibco.com'', ''.ibi.systems'', ''.tibco.com''] \<rparr>"

text \<open>
  The loop of \<^verbatim>\<open>clean_vm_name\<close>: the first suffix of the list that the name ends
  with is cut off, then the loop breaks. \<^verbatim>\<open>vmname[:-n]\<close> is the empty string for
  \<open>n = 0\<close>.
\<close>

fun strip_first_suffix :: "string list \<Rightarrow> string \<Rightarrow> string" where
  "strip_first_suffix [] vmname = vmname"
| "strip_first_suffix (sfx # rest) vmname =
     (if endswith vmname sfx
      then (if length sfx = 0 then [] else take (length vmname - length sfx) vmname)
      else strip_first_suffix rest vmname)"

definition clean_vm_name :: "VMNameManager \<Rightarrow> string \<Rightarrow> string" where
  "clean_vm_name mgr vmname =
     (if vmname = [] then vmname else strip_first_suffix (domain_suffixes mgr) vmname)"

text \<open>The loop over the vanity table: the first entry whose key is a prefix of the name.\<close>

fun first_vanity_match :: "(string \<times> string) list \<Rightarrow> string \<Rightarrow> (string \<times> string) option" where
  "first_vanity_match [] name = None"
| "first_vanity_match ((vanity_name, real_hostname) # rest) name =
     (if startswith name vanity_name then Some (vanity_name, real_hostname)
      else first_vanity_match rest name)"

definition nm_map_vanity_to_hostname :: "VMNameManager \<Rightarrow> string \<Rightarrow> string" where
  "nm_map_vanity_to_hostname mgr vmname =
     (let cleaned = clean_vm_name mgr vmname
      in case first_vanity_match (vanity_to_hostname mgr) cleaned of
           Some (vanity_name, real_hostname) \<Rightarrow> real_hostname
         | None \<Rightarrow> cleaned)"

definition nm_get_vanity_name :: "VMNameManager \<Rightarrow> string \<Rightarrow> string" where
  "nm_get_vanity_name mgr vmname =
     (let cleaned = clean_vm_name mgr vmname
      in case first_vanity_match (vanity_to_hostname mgr) cleaned of
           Some (vanity_name, real_hostname) \<Rightarrow> vanity_name @ ''.ibi.systems''
         | None \<Rightarrow> cleaned)"

subsection \<open>\<^verbatim>\<open>core.vm_operations_handler\<close>: the handler's own resolver\<close>

text \<open>The module constant \<^verbatim>\<open>VANITY_TO_HOSTNAME\<close>.\<close>

definition VANITY_TO_HOSTNAME :: "(string \<times> string) list" where
  "VANITY_TO_HOSTNAME = [(''nlq'', ''guedfocnlq03''), (''py-server'', ''guedfocdsml01'')]"

definition map_vanity_to_hostname :: "string \<Rightarrow> string" where
  "map_vanity_to_hostname vmname =
     (let base_vmname = first_label vmname
      in case first_vanity_match VANITY_TO_HOSTNAME base_vmname of
           Some (vanity_name, real_hostname) \<Rightarrow> real_hostname
         | None \<Rightarrow> base_vmname)"

text \<open>
  \<^verbatim>\<open>get_vanity_name\<close> also accepts the real host name itself; with no entry it
  returns the name as it was given, domain included.
\<close>

fun first_alias_match :: "(string \<times> string) list \<Rightarrow> string \<Rightarrow> string option" where
  "first_alias_match [] base = None"
| "first_alias_match ((vanity_name, real_hostname) # rest) base =
     (if base = real_hostname \<or> startswith base vanity_name then Some vanity_name
      else first_alias_match rest base)"

definition get_vanity_name :: "string \<Rightarrow> string" where
  "get_vanity_name vmname =
     (case first_alias_match VANITY_TO_HOSTNAME (first_label vmname) of
        Some vanity_name \<Rightarrow> vanity_name @ ''.ibi.systems''
      | None \<Rightarrow> vmname)"


text \<open>Whether a name still ends in one of the manager's domain suffixes.\<close>

definition has_known_suffix :: "VMNameManager \<Rightarrow> string \<Rightarrow> bool" where
  "has_known_suffix mgr s = list_ex (endswith s) (domain_suffixes mgr)"

section \<open>Error sanitizing (\<^verbatim>\<open>_sanitize_error\<close>)\<close>

definition apos :: string where
  "apos = [CHR 0x27]"

text \<open>
  \<^verbatim>\<open>re.search(r'instances/([^\'"\s]+)', msg)\<close>: the leftmost position where
  \<^verbatim>\<open>instances/\<close> is followed by at least one character that is neither a quote nor
  white space; group 1 is the longest run of such characters.
\<close>

definition vm_name_char :: "char \<Rightarrow> bool" where
  "vm_name_char c = (c \<noteq> CHR 0x27 \<and> c \<noteq> CHR 0x22 \<and> \<not> is_space c)"

fun search_instances :: "string \<Rightarrow> string option" where
  "search_instances [] = None"
| "search_instances (c # cs) =
     (if startswith (c # cs) ''instances/''
         \<and> takeWhile vm_name_char (drop (length ''instances/'') (c # cs)) \<noteq> []
      then Some (takeWhile vm_name_char (drop (length ''instances/'') (c # cs)))
      else search_instances cs)"

definition not_found_message :: "string \<Rightarrow> string" where
  "not_found_message vm_name =
     ''Error: VM '' @ apos @ vm_name @ apos @ '' not found. Please verify the VM name and try again.''"

definition permission_message :: string where
  "permission_message = ''Error: Insufficient permissions to perform this operation.''"

definition generic_message :: string where
  "generic_message =
     ''An error occurred while performing the operation. Please check VM name and try again.''"

definition sanitize_error :: "string \<Rightarrow> string" where
  "sanitize_error error_message =
     (if py_in ''HTTPError 404'' error_message \<and> py_in ''was not found'' error_message
      then not_found_message
             (case search_instances error_message of
                Some g \<Rightarrow> g
              | None \<Rightarrow> ''the specified VM'')
      else if py_in ''permission'' (lower error_message) \<or> py_in ''authorized'' (lower error_message)
      then permission_message
      else generic_message)"

text \<open>
  The single-response status path looks for
  \<^verbatim>\<open>The resource 'projects/([^/]+)/.*?instances/([^'"]+)\<close> in the raw error
  and reports group 2. After the project segment, \<^verbatim>\<open>.*?\<close> moves right one
  character at a time, never over a line break, until \<^verbatim>\<open>instances/\<close> and a
  non-quote character follow.
\<close>

definition not_quote :: "char \<Rightarrow> bool" where
  "not_quote c = (c \<noteq> CHR 0x27 \<and> c \<noteq> CHR 0x22)"

fun lazy_instances :: "string \<Rightarrow> string option" where
  "lazy_instances [] = None"
| "lazy_instances (c # cs) =
     (if startswith (c # cs) ''instances/''
         \<and> takeWhile not_quote (drop (length ''instances/'') (c # cs)) \<noteq> []
      then Some (takeWhile not_quote (drop (length ''instances/'') (c # cs)))
      else if c = CHR 0x0A then None
      else lazy_instances cs)"

definition resource_prefix :: string where
  "resource_prefix = ''The resource '' @ apos @ ''projects/''"

fun search_resource :: "string \<Rightarrow> string option" where
  "search_resource [] = None"
| "search_resource (c # cs) =
     (if startswith (c # cs) resource_prefix
      then (let r = drop (length resource_prefix) (c # cs);
                project = takeWhile (\<lambda>x. x \<noteq> CHR ''/'') r;
                after = dropWhile (\<lambda>x. x \<noteq> CHR ''/'') r
            in if project \<noteq> [] \<and> after \<noteq> []
               then (case lazy_instances (tl after) of
                       Some inst \<Rightarrow> Some inst
                     | None \<Rightarrow> search_resource cs)
               else search_resource cs)
      else search_resource cs)"

section \<open>The VM directory cache (\<^verbatim>\<open>vm_cache.VMCache\<close>)\<close>

text \<open>
  What a child process gave back: \<open>LaunchFailure msg\<close> is an exception raised by
  \<^verbatim>\<open>create_subprocess_exec\<close> (with \<^verbatim>\<open>str(e)\<close>), \<open>Exited rc out err\<close> the
  return code of a process that ran, with its decoded standard output and standard
  error.
\<close>

datatype proc_result = LaunchFailure string | Exited int string string

text \<open>
  \<^verbatim>\<open>vm_zone_map\<close> is a \<^verbatim>\<open>dict\<close>; the partial match of the lookup walks it in
  insertion order, so it is kept as an association list. \<^verbatim>\<open>d[k] = v\<close> is
  \<^const>\<open>AList.update\<close>: an existing key keeps its place, a new key goes to the end.
  Times are seconds on one clock. \<open>cache_file\<close> is the content of the pickle file, if
  there is one: the mapping and the time it was saved.
\<close>

record VMCache =
  vm_zone_map :: "(string \<times> string) list"
  last_update :: int
  max_age_hours :: int
  cache_file :: "((string \<times> string) list \<times> int) option"

definition save_to_pickle :: "int \<Rightarrow> VMCache \<Rightarrow> VMCache" where
  "save_to_pickle now c = c\<lparr>cache_file := Some (vm_zone_map c, now)\<rparr>"

text \<open>\<^verbatim>\<open>[x for x in text.strip().split('\n') if x]\<close>\<close>

definition nonempty_lines :: "string \<Rightarrow> string list" where
  "nonempty_lines text = filter (\<lambda>x. x \<noteq> []) (split (strip text) CHR 0x0A)"

text \<open>The inner loop over the VMs of one zone: the name and its lower-case twin.\<close>

fun store_vms :: "string \<Rightarrow> string list \<Rightarrow> (string \<times> string) list \<Rightarrow> (string \<times> string) list" where
  "store_vms zone [] m = m"
| "store_vms zone (vm # vms) m =
     store_vms zone vms (AList.update (lower vm) zone (AList.update vm zone m))"

text \<open>
  The loop over the zones. The result is the mapping, the zones whose instance listing
  was started, in order, and whether the loop ran to its end (\<open>False\<close>: an exception
  left it). A zone whose listing returns a non-zero code is skipped.
\<close>

fun scan_zones :: "(string \<Rightarrow> proc_result) \<Rightarrow> string list \<Rightarrow> (string \<times> string) list
    \<Rightarrow> (string \<times> string) list \<times> string list \<times> bool" where
  "scan_zones list_instances [] m = (m, [], True)"
| "scan_zones list_instances (zone # zones) m =
     (case list_instances zone of
        LaunchFailure msg \<Rightarrow> (m, [zone], False)
      | Exited rc out err \<Rightarrow>
          (let m' = (if rc \<noteq> 0 then m
                     else if out \<noteq> [] then store_vms zone (nonempty_lines out) m
                     else m);
               (m'', scanned, finished) = scan_zones list_instances zones m'
           in (m'', zone # scanned, finished)))"

text \<open>
  \<^verbatim>\<open>update_cache\<close>. \<open>list_zones\<close> is the outcome of the zone listing,
  \<open>list_instances zone\<close> that of the instance listing of one zone, \<open>now\<close> the clock
  when the loop is over. The result is the cache and the zones scanned.
\<close>

definition update_cache :: "proc_result \<Rightarrow> (string \<Rightarrow> proc_result) \<Rightarrow> int \<Rightarrow> VMCache
    \<Rightarrow> VMCache \<times> string list" where
  "update_cache list_zones list_instances now c0 =
     (let c = c0\<lparr>vm_zone_map := []\<rparr>
      in case list_zones of
           LaunchFailure msg \<Rightarrow> (c, [])
         | Exited rc out err \<Rightarrow>
             if rc \<noteq> 0 then (c, [])
             else let zones = nonempty_lines out
                  in if zones = [] then (c, [])
                     else let (m, scanned, finished) = scan_zones list_instances zones (vm_zone_map c)
                          in if \<not> finished then (c\<lparr>vm_zone_map := m\<rparr>, scanned)
                             else let c' = c\<lparr>vm_zone_map := m, last_update := now\<rparr>
                                  in if m \<noteq> [] then (save_to_pickle now c', scanned)
                                     else (c', scanned))"

text \<open>
  The refresh is a coroutine that writes \<^verbatim>\<open>self.vm_zone_map\<close> in place and never
  takes the lock. It is suspended at every \<^verbatim>\<open>await\<close>, where request handlers run
  and may look names up. \<open>scan_zones_states\<close> lists the mapping as it stands at the
  \<^verbatim>\<open>await\<close> of each zone's listing, \<open>update_cache_states\<close> the mapping at every
  suspension point of the refresh, the first being the \<^verbatim>\<open>await\<close> of the zone listing.
\<close>

fun scan_zones_states :: "(string \<Rightarrow> proc_result) \<Rightarrow> string list \<Rightarrow> (string \<times> string) list
    \<Rightarrow> (string \<times> string) list list" where
  "scan_zones_states list_instances [] m = []"
| "scan_zones_states list_instances (zone # zones) m =
     m # (case list_instances zone of
            LaunchFailure msg \<Rightarrow> []
          | Exited rc out err \<Rightarrow>
              scan_zones_states list_instances zones
                (if rc \<noteq> 0 then m
                 else if out \<noteq> [] then store_vms zone (nonempty_lines out) m
                 else m))"

definition update_cache_states :: "proc_result \<Rightarrow> (string \<Rightarrow> proc_result) \<Rightarrow> VMCache
    \<Rightarrow> (string \<times> string) list list" where
  "update_cache_states list_zones list_instances c0 =
     [] # (case list_zones of
             LaunchFailure msg \<Rightarrow> []
           | Exited rc out err \<Rightarrow>
               if rc \<noteq> 0 then [] else scan_zones_states list_instances (nonempty_lines out) [])"

text \<open>The partial match of \<^verbatim>\<open>get_vm_zone\<close>: the first entry in the substring relation.\<close>

fun partial_match :: "(string \<times> string) list \<Rightarrow> string \<Rightarrow> string option" where
  "partial_match [] clean_name = None"
| "partial_match ((vm, zone) # rest) clean_name =
     (if py_in clean_name vm \<or> py_in vm clean_name then Some zone
      else partial_match rest clean_name)"

text \<open>
  \<^verbatim>\<open>get_vm_zone\<close> returns the zone, or \<open>None\<close>; the second component counts the
  background refreshes it schedules with \<^verbatim>\<open>asyncio.create_task\<close>.
\<close>

definition get_vm_zone :: "VMCache \<Rightarrow> int \<Rightarrow> string \<Rightarrow> string option \<times> nat" where
  "get_vm_zone c now vm_name =
     (if vm_name = [] then (None, 0)
      else let clean_name = first_label vm_name;
               cache_age = now - last_update c;
               stale = (if cache_age > max_age_hours c * 3600 then 1 else 0)
           in case map_of (vm_zone_map c) clean_name of
                Some zone \<Rightarrow> (Some zone, stale)
              | None \<Rightarrow>
                 (case map_of (vm_zone_map c) (lower clean_name) of
                    Some zone \<Rightarrow> (Some zone, stale)
                  | None \<Rightarrow>
                     (case partial_match (vm_zone_map c) clean_name of
                        Some zone \<Rightarrow> (Some zone, stale)
                      | None \<Rightarrow>
                          (let cached_vms =
                                 (if vm_zone_map c \<noteq> []
                                  then length (remdups (map (lower \<circ> fst) (vm_zone_map c))) div 2
                                  else 0)
                           in (None, stale + (if cached_vms = 0 \<or> cache_age > 30 * 60 then 1 else 0))))))"

subsection \<open>\<^verbatim>\<open>utils.zone_manager.ZoneManager\<close>\<close>

definition fallback_zones :: "string list" where
  "fallback_zones =
     [''us-central1-a'', ''us-central1-b'', ''us-east1-b'', ''asia-east1-a'', ''asia-southeast1-a'']"

text \<open>
  \<^verbatim>\<open>get_all_zones\<close>. \<open>json_names\<close> stands for \<^verbatim>\<open>json.loads\<close> followed by
  \<^verbatim>\<open>zone_info.get("name", "")\<close> on each entry: \<open>None\<close> when that raises.
\<close>

definition get_all_zones :: "string list \<Rightarrow> (string \<Rightarrow> string list option) \<Rightarrow> proc_result \<Rightarrow> string list" where
  "get_all_zones target_regions json_names result =
     (case result of
        LaunchFailure msg \<Rightarrow> fallback_zones
      | Exited rc out err \<Rightarrow>
          if rc = 0 \<and> strip out \<noteq> []
          then (case json_names out of
                  None \<Rightarrow> fallback_zones
                | Some names \<Rightarrow> filter (\<lambda>zone_name. list_ex (startswith zone_name) target_regions) names)
          else fallback_zones)"


section \<open>The audit log (\<^verbatim>\<open>operation_logger.OperationLogger\<close>)\<close>

text \<open>One row of the CSV file, with the columns of its header.\<close>

record OperationRecord =
  timestamp :: int
  vm_name :: string
  operation :: string
  client_ip :: string
  zone :: string
  status :: string
  vanity_name :: string

text \<open>\<^verbatim>\<open>x or default\<close> on an optional string: \<open>None\<close> and \<open>""\<close> are both false.\<close>

definition or_default :: "string option \<Rightarrow> string \<Rightarrow> string" where
  "or_default x d = (case x of None \<Rightarrow> d | Some v \<Rightarrow> if v = [] then d else v)"

text \<open>\<^verbatim>\<open>log_operation\<close>: the row it appends.\<close>

definition log_operation :: "int \<Rightarrow> string \<Rightarrow> string \<Rightarrow> string \<Rightarrow> string option \<Rightarrow> string
    \<Rightarrow> string option \<Rightarrow> OperationRecord" where
  "log_operation ts vm op ip zn st vanity =
     \<lparr> timestamp = ts, vm_name = vm, operation = op, client_ip = ip,
       zone = or_default zn ''unknown'', status = st, vanity_name = or_default vanity vm \<rparr>"

section \<open>The operation executor (\<^verbatim>\<open>core.vm_operations_handler.VMOperationsHandler\<close>)\<close>

text \<open>
  The module constants \<^verbatim>\<open>ALLOWED_VMS\<close> and \<^verbatim>\<open>RESTRICTED_OPERATIONS\<close> are read
  from the process environment when the module is loaded.
\<close>

record handler_config =
  ALLOWED_VMS :: "string list"
  RESTRICTED_OPERATIONS :: "string list"

text \<open>The values used when the environment sets neither.\<close>

definition default_config :: handler_config where
  "default_config =
     \<lparr> ALLOWED_VMS = [''guedfocnlq03'', ''guedfocdsml01'', ''guedfocwqa82''],
       RESTRICTED_OPERATIONS = [''stop'', ''suspend''] \<rparr>"

definition is_vm_allowed_for_operation :: "handler_config \<Rightarrow> string \<Rightarrow> string \<Rightarrow> bool" where
  "is_vm_allowed_for_operation cfg vmname op =
     (if lower op \<notin> set (RESTRICTED_OPERATIONS cfg) then True
      else map_vanity_to_hostname vmname \<in> set (ALLOWED_VMS cfg))"

text \<open>\<^verbatim>\<open>_get_gcloud_command\<close>: \<open>None\<close> for an operation outside its table.\<close>

definition get_gcloud_command :: "string \<Rightarrow> string \<Rightarrow> string \<Rightarrow> string list option" where
  "get_gcloud_command op vmname zn =
     map_of
       [(''status'', [''gcloud'', ''compute'', ''instances'', ''describe'', vmname, ''--zone'', zn]),
        (''start'', [''gcloud'', ''compute'', ''instances'', ''start'', vmname, ''--zone'', zn]),
        (''stop'', [''gcloud'', ''compute'', ''instances'', ''stop'', vmname, ''--zone'', zn]),
        (''suspend'', [''gcloud'', ''compute'', ''instances'', ''suspend'', vmname, ''--zone'', zn]),
        (''resume'', [''gcloud'', ''compute'', ''instances'', ''resume'', vmname, ''--zone'', zn])]
       op"

text \<open>
  The payload of a streamed message is text, or \<^verbatim>\<open>json.dumps\<close> of the status
  dictionary, kept here as the dictionary itself.
\<close>

record status_info =
  info_name :: string
  info_vanity_name :: "string option"
  info_status :: string
  info_machine_type :: string
  info_ip_address :: string
  info_zone :: string

datatype payload = Text string | StatusJson status_info

record sse_message =
  event :: string
  data :: payload
  retry :: nat

definition format_sse_message :: "string \<Rightarrow> payload \<Rightarrow> sse_message" where
  "format_sse_message event_type d = \<lparr> event = event_type, data = d, retry = 1000 \<rparr>"

text \<open>
  What one run of the executor did: what it delivered to the client (the streamed
  messages, or the single response), the rows it logged, the argument vectors of the
  child processes it started, and the names it asked the cache for, each in order.
\<close>

record 'a outcome =
  delivered :: 'a
  records :: "OperationRecord list"
  commands :: "string list list"
  zone_lookups :: "string list"

text \<open>
  The fields the single-response status path reads from the describe command's JSON
  document: \<open>None\<close> for a key that is absent; of each network interface, its
  \<^verbatim>\<open>networkIP\<close>.
\<close>

record describe_json =
  js_name :: "string option"
  js_status :: "string option"
  js_machineType :: "string option"
  js_networkInterfaces :: "string option list option"

text \<open>
  What a run reads from outside: the cache, the clock at the start of the call
  (\<open>start_time\<close>) and later, at the cache lookup and the log entries (\<open>log_time\<close>),
  the child process behind \<^verbatim>\<open>asyncio.create_subprocess_exec\<close>,
  and \<^verbatim>\<open>json.loads\<close> with the reads of the document (\<open>Inl msg\<close>: they raise, with
  \<^verbatim>\<open>str(e)\<close>).
\<close>

record exec_env =
  cache :: VMCache
  start_time :: int
  log_time :: int
  run_process :: "string list \<Rightarrow> proc_result"
  json_loads :: "string \<Rightarrow> string + describe_json"

text \<open>
  \<^verbatim>\<open>if not zone\<close>: \<open>None\<close> and the empty string both count as no zone;
  \<open>zone_value\<close> is \<open>None\<close> for them and the zone otherwise.
\<close>

definition zone_value :: "string option \<Rightarrow> string option" where
  "zone_value zn = (case zn of None \<Rightarrow> None | Some z \<Rightarrow> if z = [] then None else Some z)"

definition denial_message :: "handler_config \<Rightarrow> string \<Rightarrow> string \<Rightarrow> string" where
  "denial_message cfg op vmname =
     ''Operation '' @ apos @ op @ apos @ '' is not allowed for VM '' @ apos @ vmname @ apos
       @ ''. Only allowed for: ''
       @ join '', '' (map (\<lambda>vm. vm @ '' ('' @ get_vanity_name vm @ '')'') (ALLOWED_VMS cfg))"

definition no_zone_message :: "string \<Rightarrow> string" where
  "no_zone_message real_vmname =
     ''VM '' @ real_vmname @ '' not found in any zone. Please specify a zone parameter.''"

text \<open>
  \<^verbatim>\<open>process.stdout.readline()\<close> until it returns nothing: the lines of the output,
  each with its line break, the last one without if the output does not end in one.
  The stream reader of the child process has the default limit of \<open>2 ^ 16\<close>
  characters: \<^verbatim>\<open>readline\<close> raises \<^verbatim>\<open>ValueError\<close> on a line that is longer before
  its line break (or before the end of the output). The result is the lines read before
  that, and the text of the exception if there was one.
\<close>

definition readline_limit :: nat where
  "readline_limit = 2 ^ 16"

fun readlines_acc :: "string \<Rightarrow> string \<Rightarrow> string list \<times> string option" where
  "readlines_acc acc [] =
     (if acc = [] then ([], None)
      else if length acc > readline_limit
      then ([], Some ''Separator is not found, and chunk exceed the limit'')
      else ([acc], None))"
| "readlines_acc acc (c # cs) =
     (if c = CHR 0x0A
      then (if length acc > readline_limit
            then ([], Some ''Separator is found, but chunk is longer than limit'')
            else (let (ls, raised) = readlines_acc [] cs in ((acc @ [c]) # ls, raised)))
      else readlines_acc (acc @ [c]) cs)"

definition readlines :: "string \<Rightarrow> string list \<times> string option" where
  "readlines out = readlines_acc [] out"

subsection \<open>Streaming mode: \<^verbatim>\<open>execute_vm_operation\<close>\<close>

definition status_command :: "string \<Rightarrow> string \<Rightarrow> string list" where
  "status_command real_vmname zn =
     [''gcloud'', ''compute'', ''instances'', ''describe'', real_vmname, ''--zone'', zn,
      ''--format=csv[no-heading](status,machineType.basename(),networkInterfaces[0].networkIP)'']"

text \<open>The handler of \<^verbatim>\<open>except Exception\<close>: one sanitized error message, one row.\<close>

definition sse_exception :: "exec_env \<Rightarrow> string \<Rightarrow> string \<Rightarrow> string \<Rightarrow> string \<Rightarrow> string \<Rightarrow> string
    \<Rightarrow> sse_message list \<times> OperationRecord list" where
  "sse_exception env real_vmname vanity_vmname op zn ip msg =
     ([format_sse_message ''error'' (Text (sanitize_error msg))],
      [log_operation (log_time env) real_vmname op ip (Some zn) ''error'' (Some vanity_vmname)])"

text \<open>
  The branch \<^verbatim>\<open>operation == "status"\<close>, after the row \<open>started\<close>: the messages and
  rows that follow, for the given outcome of the describe command.
\<close>

definition sse_status :: "exec_env \<Rightarrow> string \<Rightarrow> string \<Rightarrow> string \<Rightarrow> string \<Rightarrow> string \<Rightarrow> proc_result
    \<Rightarrow> sse_message list \<times> OperationRecord list" where
  "sse_status env real_vmname vanity_vmname op zn ip result =
     (let info = format_sse_message ''info''
                   (Text (''Checking status of VM '' @ real_vmname @ '' in zone '' @ zn))
      in case result of
           LaunchFailure msg \<Rightarrow>
             (let (ms, rs) = sse_exception env real_vmname vanity_vmname op zn ip msg
              in (info # ms, rs))
         | Exited rc out err \<Rightarrow>
             if rc = 0
             then (let vm_info = split (strip out) CHR '','' in
                   if length vm_info \<ge> 1
                   then (let st = strip (vm_info ! 0);
                             machine_type = (if length vm_info \<ge> 2 then strip (vm_info ! 1) else ''unknown'');
                             ip_address = (if length vm_info \<ge> 3 then strip (vm_info ! 2) else ''unknown'');
                             si = \<lparr> info_name = real_vmname,
                                    info_vanity_name =
                                      (if vanity_vmname \<noteq> real_vmname then Some vanity_vmname else None),
                                    info_status = st, info_machine_type = machine_type,
                                    info_ip_address = ip_address, info_zone = zn \<rparr>
                         in ([info,
                              format_sse_message ''status'' (StatusJson si),
                              format_sse_message ''success''
                                (Text (''VM '' @ real_vmname @ '' is '' @ st @ '' ('' @ machine_type
                                       @ '', IP: '' @ ip_address @ '')''))],
                             [log_operation (log_time env) real_vmname op ip (Some zn) ''completed''
                                (Some vanity_vmname)]))
                   else ([info, format_sse_message ''error'' (Text ''Unable to parse VM status information'')],
                         []))
             else ([info, format_sse_message ''error'' (Text (sanitize_error err))],
                   [log_operation (log_time env) real_vmname op ip (Some zn) ''failed''
                      (Some vanity_vmname)]))"

text \<open>
  The other operations, after the row \<open>started\<close> and once the command is known: one
  progress message for each line of output, then the message and the row for the
  return code; an exception while the lines are read ends the run in the handler of
  \<^verbatim>\<open>except Exception\<close> instead.
\<close>

definition sse_mutating :: "exec_env \<Rightarrow> string \<Rightarrow> string \<Rightarrow> string \<Rightarrow> string \<Rightarrow> string \<Rightarrow> proc_result
    \<Rightarrow> sse_message list \<times> OperationRecord list" where
  "sse_mutating env real_vmname vanity_vmname op zn ip result =
     (let info = format_sse_message ''info''
                   (Text (''Executing '' @ op @ '' on VM '' @ real_vmname @ '' in zone '' @ zn))
      in case result of
           LaunchFailure msg \<Rightarrow>
             (let (ms, rs) = sse_exception env real_vmname vanity_vmname op zn ip msg
              in (info # ms, rs))
         | Exited rc out err \<Rightarrow>
             (let progress = map (\<lambda>line. format_sse_message ''progress'' (Text (strip line)))
                               (fst (readlines out))
              in case snd (readlines out) of
                   Some msg \<Rightarrow>
                     (let (ms, rs) = sse_exception env real_vmname vanity_vmname op zn ip msg
                      in (info # progress @ ms, rs))
                 | None \<Rightarrow>
                     if rc = 0
                     then (info # progress @
                             [format_sse_message ''success''
                                (Text (''Successfully completed '' @ op @ '' operation on VM ''
                                       @ real_vmname @ '' ('' @ vanity_vmname @ '')''))],
                           [log_operation (log_time env) real_vmname op ip (Some zn) ''completed''
                              (Some vanity_vmname)])
                     else (info # progress
                             @ [format_sse_message ''error'' (Text (sanitize_error err))],
                           [log_operation (log_time env) real_vmname op ip (Some zn) ''failed''
                              (Some vanity_vmname)])))"

text \<open>Everything after the zone is known: the row \<open>started\<close>, then the dispatch.\<close>

definition sse_run :: "exec_env \<Rightarrow> string \<Rightarrow> string \<Rightarrow> string \<Rightarrow> string \<Rightarrow> string \<Rightarrow> string list
    \<Rightarrow> sse_message list outcome" where
  "sse_run env real_vmname vanity_vmname op zn ip lookups =
     (let started = log_operation (start_time env) real_vmname op ip (Some zn) ''started''
                      (Some vanity_vmname)
      in if op = ''status''
         then (let cmd = status_command real_vmname zn;
                   (ms, rs) = sse_status env real_vmname vanity_vmname op zn ip (run_process env cmd)
               in \<lparr> delivered = ms, records = started # rs, commands = [cmd], zone_lookups = lookups \<rparr>)
         else (case get_gcloud_command op real_vmname zn of
                 None \<Rightarrow>
                   \<lparr> delivered = [format_sse_message ''error'' (Text (''Invalid operation: '' @ op))],
                     records = [started], commands = [], zone_lookups = lookups \<rparr>
               | Some cmd \<Rightarrow>
                   (let (ms, rs) = sse_mutating env real_vmname vanity_vmname op zn ip (run_process env cmd)
                    in \<lparr> delivered = ms, records = started # rs, commands = [cmd],
                         zone_lookups = lookups \<rparr>)))"

definition execute_vm_operation :: "handler_config \<Rightarrow> exec_env \<Rightarrow> string \<Rightarrow> string \<Rightarrow> string option
    \<Rightarrow> string \<Rightarrow> sse_message list outcome" where
  "execute_vm_operation cfg env vmname op zn ip =
     (let real_vmname = map_vanity_to_hostname vmname;
          vanity_vmname = get_vanity_name vmname
      in if \<not> is_vm_allowed_for_operation cfg real_vmname op
         then \<lparr> delivered = [format_sse_message ''error'' (Text (denial_message cfg op vmname))],
                records = [log_operation (log_time env) real_vmname op ip zn ''denied''
                             (Some vanity_vmname)],
                commands = [], zone_lookups = [] \<rparr>
         else case zone_value zn of
                Some z \<Rightarrow> sse_run env real_vmname vanity_vmname op z ip []
              | None \<Rightarrow>
                 (case zone_value (fst (get_vm_zone (cache env) (log_time env) real_vmname)) of
                    None \<Rightarrow>
                      \<lparr> delivered = [format_sse_message ''error'' (Text (no_zone_message real_vmname))],
                        records = [log_operation (log_time env) real_vmname op ip (Some ''unknown'')
                                     ''failed-no-zone'' (Some vanity_vmname)],
                        commands = [], zone_lookups = [real_vmname] \<rparr>
                  | Some z \<Rightarrow> sse_run env real_vmname vanity_vmname op z ip [real_vmname]))"

subsection \<open>Single-response mode: \<^verbatim>\<open>execute_operation_json\<close>\<close>

record instance_info =
  inst_name :: string
  inst_status :: string
  inst_zone :: string
  inst_machineType :: string
  inst_networkIP :: string

text \<open>The call returns a dictionary or raises an \<^verbatim>\<open>HTTPException\<close> with a status code.\<close>

datatype json_body = StatusBody instance_info "string option" | MessageBody string

datatype response = Return json_body | HTTPException nat string

definition json_status_command :: "string \<Rightarrow> string \<Rightarrow> string list" where
  "json_status_command real_vmname zn =
     [''gcloud'', ''compute'', ''instances'', ''describe'', real_vmname, ''--zone'', zn, ''--format=json'']"

text \<open>The handler of \<^verbatim>\<open>except Exception\<close>: one row, one sanitized error with code 500.\<close>

definition json_exception :: "exec_env \<Rightarrow> string \<Rightarrow> string \<Rightarrow> string \<Rightarrow> string \<Rightarrow> string \<Rightarrow> string
    \<Rightarrow> response \<times> OperationRecord list" where
  "json_exception env real_vmname vanity_vmname op zn ip msg =
     (HTTPException 500 (sanitize_error msg),
      [log_operation (log_time env) real_vmname op ip (Some zn) ''error'' (Some vanity_vmname)])"

text \<open>\<^verbatim>\<open>d.get(key, default)\<close>: the default only when the key is absent.\<close>

definition dict_get :: "string option \<Rightarrow> string \<Rightarrow> string" where
  "dict_get x d = (case x of None \<Rightarrow> d | Some v \<Rightarrow> v)"

definition extract_instance_info :: "describe_json \<Rightarrow> string \<Rightarrow> instance_info" where
  "extract_instance_info full_vm_info zn =
     \<lparr> inst_name = dict_get (js_name full_vm_info) ''unknown'',
       inst_status = dict_get (js_status full_vm_info) ''unknown'',
       inst_zone = zn,
       inst_machineType =
         (case js_machineType full_vm_info of
            None \<Rightarrow> ''unknown''
          | Some mt \<Rightarrow> last (split mt CHR ''/'')),
       inst_networkIP =
         (case js_networkInterfaces full_vm_info of
            None \<Rightarrow> ''unknown''
          | Some [] \<Rightarrow> ''unknown''
          | Some (first # others) \<Rightarrow> dict_get first ''unknown'') \<rparr>"

definition json_status :: "exec_env \<Rightarrow> string \<Rightarrow> string \<Rightarrow> string \<Rightarrow> string \<Rightarrow> string \<Rightarrow> proc_result
    \<Rightarrow> response \<times> OperationRecord list" where
  "json_status env real_vmname vanity_vmname op zn ip result =
     (case result of
        LaunchFailure msg \<Rightarrow> json_exception env real_vmname vanity_vmname op zn ip msg
      | Exited rc out err \<Rightarrow>
          if rc = 0
          then (case json_loads env out of
                  Inl msg \<Rightarrow> json_exception env real_vmname vanity_vmname op zn ip msg
                | Inr full_vm_info \<Rightarrow>
                    (Return (StatusBody (extract_instance_info full_vm_info zn)
                               (if vanity_vmname \<noteq> real_vmname then Some vanity_vmname else None)),
                     [log_operation (log_time env) real_vmname op ip (Some zn) ''completed''
                        (Some vanity_vmname)]))
          else (case search_resource err of
                  Some inst \<Rightarrow>
                    HTTPException 404
                      (''Error: The resource '' @ apos @ inst @ apos @ '' was not found in zone ''
                       @ apos @ zn @ apos @ ''.'')
                | None \<Rightarrow> HTTPException 500 (sanitize_error err),
                [log_operation (log_time env) real_vmname op ip (Some zn) ''failed''
                   (Some vanity_vmname)]))"

definition operation_past :: "string \<Rightarrow> string" where
  "operation_past op =
     (if op = ''start'' then ''started'' else if op = ''stop'' then ''stopped''
      else if op = ''suspend'' then ''suspended'' else if op = ''resume'' then ''resumed''
      else op @ ''ed'')"

definition json_mutating :: "exec_env \<Rightarrow> string \<Rightarrow> string \<Rightarrow> string \<Rightarrow> string \<Rightarrow> string \<Rightarrow> proc_result
    \<Rightarrow> response \<times> OperationRecord list" where
  "json_mutating env real_vmname vanity_vmname op zn ip result =
     (case result of
        LaunchFailure msg \<Rightarrow> json_exception env real_vmname vanity_vmname op zn ip msg
      | Exited rc out err \<Rightarrow>
          if rc = 0
          then (Return (MessageBody (''VM '' @ real_vmname @ '' ('' @ vanity_vmname @ '') ''
                                     @ operation_past op @ '' successfully.'')),
                [log_operation (log_time env) real_vmname op ip (Some zn) ''completed''
                   (Some vanity_vmname)])
          else (HTTPException 500 (sanitize_error err),
                [log_operation (log_time env) real_vmname op ip (Some zn) ''failed''
                   (Some vanity_vmname)]))"

definition json_run :: "exec_env \<Rightarrow> string \<Rightarrow> string \<Rightarrow> string \<Rightarrow> string \<Rightarrow> string \<Rightarrow> string list
    \<Rightarrow> response outcome" where
  "json_run env real_vmname vanity_vmname op zn ip lookups =
     (let started = log_operation (start_time env) real_vmname op ip (Some zn) ''started''
                      (Some vanity_vmname)
      in if op = ''status''
         then (let cmd = json_status_command real_vmname zn;
                   (r, rs) = json_status env real_vmname vanity_vmname op zn ip (run_process env cmd)
               in \<lparr> delivered = r, records = started # rs, commands = [cmd], zone_lookups = lookups \<rparr>)
         else if op \<in> set [''start'', ''stop'', ''suspend'', ''resume'']
         then (case get_gcloud_command op real_vmname zn of
                 None \<Rightarrow>
                   (let (r, rs) = json_exception env real_vmname vanity_vmname op zn ip
                                    ''argument after * must be an iterable, not NoneType''
                    in \<lparr> delivered = r, records = started # rs, commands = [], zone_lookups = lookups \<rparr>)
               | Some cmd \<Rightarrow>
                   (let (r, rs) = json_mutating env real_vmname vanity_vmname op zn ip (run_process env cmd)
                    in \<lparr> delivered = r, records = started # rs, commands = [cmd],
                         zone_lookups = lookups \<rparr>))
         else \<lparr> delivered = HTTPException 400 (''Invalid operation: '' @ op),
                records = [started], commands = [], zone_lookups = lookups \<rparr>)"

definition execute_operation_json :: "handler_config \<Rightarrow> exec_env \<Rightarrow> string \<Rightarrow> string \<Rightarrow> string option
    \<Rightarrow> string \<Rightarrow> response outcome" where
  "execute_operation_json cfg env vmname op zn ip =
     (let real_vmname = map_vanity_to_hostname vmname;
          vanity_vmname = get_vanity_name vmname
      in if \<not> is_vm_allowed_for_operation cfg real_vmname op
         then \<lparr> delivered = HTTPException 403 (denial_message cfg op vmname),
                records = [log_operation (log_time env) real_vmname op ip zn ''denied''
                             (Some vanity_vmname)],
                commands = [], zone_lookups = [] \<rparr>
         else case zone_value zn of
                Some z \<Rightarrow> json_run env real_vmname vanity_vmname op z ip []
              | None \<Rightarrow>
                 (case zone_value (fst (get_vm_zone (cache env) (log_time env) real_vmname)) of
                    None \<Rightarrow>
                      \<lparr> delivered = HTTPException 404 (no_zone_message real_vmname),
                        records = [log_operation (log_time env) real_vmname op ip (Some ''unknown'')
                                     ''failed-no-zone'' (Some vanity_vmname)],
                        commands = [], zone_lookups = [real_vmname] \<rparr>
                  | Some z \<Rightarrow> json_run env real_vmname vanity_vmname op z ip [real_vmname]))"


section \<open>Notions used in the statements\<close>

text \<open>
  The three tests of \<^verbatim>\<open>get_vm_zone\<close> on one key of the mapping: the key is the
  looked-up label, its lower-case form, or in the substring relation with it.
\<close>

definition key_matches :: "string \<Rightarrow> string \<Rightarrow> bool" where
  "key_matches clean_name vm =
     (vm = clean_name \<or> vm = lower clean_name \<or> py_in clean_name vm \<or> py_in vm clean_name)"

text \<open>
  A lookup that a request handler makes while the refresh is suspended at its \<open>i\<close>-th
  \<^verbatim>\<open>await\<close>: the lookup runs on the mapping as the refresh has left it so far.
\<close>

definition lookup_during_refresh :: "proc_result \<Rightarrow> (string \<Rightarrow> proc_result) \<Rightarrow> VMCache \<Rightarrow> nat
    \<Rightarrow> int \<Rightarrow> string \<Rightarrow> string option" where
  "lookup_during_refresh list_zones list_instances c i now vm =
     fst (get_vm_zone (c\<lparr>vm_zone_map := update_cache_states list_zones list_instances c ! i\<rparr>) now vm)"

text \<open>
  An instance listing that adds no VM to the mapping: it raises, returns a non-zero code,
  or prints no name.
\<close>

definition lists_no_vm :: "proc_result \<Rightarrow> bool" where
  "lists_no_vm r =
     (case r of LaunchFailure msg \<Rightarrow> True | Exited rc out err \<Rightarrow> rc \<noteq> 0 \<or> nonempty_lines out = [])"

text \<open>Whether the character \<open>a\<close> is directly followed by \<open>b\<close> somewhere in the text.\<close>

fun has_pair :: "char \<Rightarrow> char \<Rightarrow> string \<Rightarrow> bool" where
  "has_pair a b [] = False"
| "has_pair a b [x] = False"
| "has_pair a b (x # y # ys) = (x = a \<and> y = b \<or> has_pair a b (y # ys))"

subsection \<open>Concrete inputs\<close>

text \<open>A cache that knows one VM, and the same on disk.\<close>

definition one_vm_cache :: VMCache where
  "one_vm_cache = \<lparr> vm_zone_map = [(''web01'', ''us-east1-b'')], last_update = 0, max_age_hours = 1,
                     cache_file = Some ([(''web01'', ''us-east1-b'')], 0) \<rparr>"

definition empty_cache :: VMCache where
  "empty_cache = \<lparr> vm_zone_map = [], last_update = 0, max_age_hours = 1, cache_file = None \<rparr>"

text \<open>A zone listing that fails, and one that finds two zones.\<close>

definition failed_listing :: proc_result where
  "failed_listing =
     Exited 1 [] ''ERROR: (gcloud.compute.zones.list) You do not currently have an active account selected.''"

definition two_zone_listing :: proc_result where
  "two_zone_listing = Exited 0 (''us-east1-b'' @ [CHR 0x0A] @ ''us-west1-a'' @ [CHR 0x0A]) []"

text \<open>A zone listing that succeeds and finds no zone, and instance listings that find no VM.\<close>

definition empty_zone_listing :: proc_result where
  "empty_zone_listing = Exited 0 [] []"

definition no_instances :: "string \<Rightarrow> proc_result" where
  "no_instances zn = Exited 0 [] []"

text \<open>Instance listings: \<^verbatim>\<open>alpha\<close> lives in the first zone, \<^verbatim>\<open>beta\<close> in the second.\<close>

definition instances_by_zone :: "string \<Rightarrow> proc_result" where
  "instances_by_zone zn =
     (if zn = ''us-east1-b'' then Exited 0 (''alpha'' @ [CHR 0x0A]) []
      else if zn = ''us-west1-a'' then Exited 0 (''beta'' @ [CHR 0x0A]) []
      else Exited 0 [] [])"

text \<open>
  An environment in which every child process exits with code 0 and prints nothing, and
  the cache is empty.
\<close>

definition quiet_env :: exec_env where
  "quiet_env = \<lparr> cache = empty_cache, start_time = 0, log_time = 1,
                 run_process = (\<lambda>cmd. Exited 0 [] []),
                 json_loads = (\<lambda>doc. Inl ''Expecting value: line 1 column 1 (char 0)'') \<rparr>"

text \<open>
  An error text of the describe command in which no quote closes the resource path, and
  an environment in which every child process exits with code 1 and that text on its
  standard error.
\<close>

definition unclosed_resource_error :: string where
  "unclosed_resource_error =
     ''The resource '' @ apos
     @ ''projects/p1/zones/z/instances/vm9 was not found; token=abc123 user=root@corp''"

definition failing_env :: exec_env where
  "failing_env = \<lparr> cache = empty_cache, start_time = 0, log_time = 1,
                   run_process = (\<lambda>cmd. Exited 1 [] unclosed_resource_error),
                   json_loads = (\<lambda>doc. Inl ''Expecting value: line 1 column 1 (char 0)'') \<rparr>"

text \<open>An error text as the external tool prints it for an instance that does not exist.\<close>

definition gcloud_404_error :: string where
  "gcloud_404_error =
     ''ERROR: (gcloud.compute.instances.start) HTTPError 404: The resource '' @ apos
     @ ''projects/p1/zones/us-east1-b/instances/vm9'' @ apos @ '' was not found''"


section \<open>Facts about the string primitives\<close>

lemma startswith_prefix: "startswith s p = prefix p s"
  by (induction s p rule: startswith.induct) auto

lemma hd_split_acc: "hd (split_acc acc sep s) = acc @ takeWhile (\<lambda>c. c \<noteq> sep) s"
  by (induction s arbitrary: acc) auto

lemma first_label_takeWhile: "first_label s = takeWhile (\<lambda>c. c \<noteq> CHR ''.'') s"
  by (simp add: first_label_def split_def hd_split_acc)

lemma first_label_idem: "first_label (first_label s) = first_label s"
  by (simp add: first_label_takeWhile)

lemma endswith_length: "endswith s p \<Longrightarrow> length p \<le> length s"
  by (simp add: endswith_def startswith_prefix prefix_length_le[of "rev p" "rev s", simplified])

section \<open>Name resolution: idempotence\<close>

lemma first_vanity_match_hosts:
  "first_vanity_match VANITY_TO_HOSTNAME b = Some (v, h) \<Longrightarrow>
   h = ''guedfocnlq03'' \<or> h = ''guedfocdsml01''"
  by (auto simp: VANITY_TO_HOSTNAME_def split: if_splits)

lemma map_host_fixed:
  "map_vanity_to_hostname ''guedfocnlq03'' = ''guedfocnlq03''"
  "map_vanity_to_hostname ''guedfocdsml01'' = ''guedfocdsml01''"
  by (simp_all add: map_vanity_to_hostname_def first_label_takeWhile VANITY_TO_HOSTNAME_def)

lemma map_vanity_to_hostname_idem:
  "map_vanity_to_hostname (map_vanity_to_hostname x) = map_vanity_to_hostname x"
proof (cases "first_vanity_match VANITY_TO_HOSTNAME (first_label x)")
  case None
  then show ?thesis
    by (simp add: map_vanity_to_hostname_def first_label_idem)
next
  case (Some vh)
  obtain v h where vh: "vh = (v, h)" by (cases vh)
  from Some vh have "map_vanity_to_hostname x = h"
    by (simp add: map_vanity_to_hostname_def)
  moreover from Some vh have "h = ''guedfocnlq03'' \<or> h = ''guedfocdsml01''"
    by (auto dest: first_vanity_match_hosts)
  ultimately show ?thesis
    by (auto simp: map_host_fixed)
qed

lemma strip_first_suffix_none:
  "\<not> list_ex (endswith s) sfxs \<Longrightarrow> strip_first_suffix sfxs s = s"
  by (induction sfxs) auto

lemma strip_first_suffix_shorter:
  "list_ex (endswith s) sfxs \<Longrightarrow> [] \<notin> set sfxs \<Longrightarrow> length (strip_first_suffix sfxs s) < length s"
proof (induction sfxs)
  case Nil
  then show ?case by simp
next
  case (Cons a sfxs)
  show ?case
  proof (cases "endswith s a")
    case True
    with Cons.prems have "a \<noteq> []" by auto
    moreover from True have "length a \<le> length s" by (rule endswith_length)
    ultimately show ?thesis using True by (cases a) auto
  next
    case False
    with Cons show ?thesis by auto
  qed
qed

lemma nm_host_fixed:
  "nm_map_vanity_to_hostname default_name_manager ''guedfocnlq03'' = ''guedfocnlq03''"
  "nm_map_vanity_to_hostname default_name_manager ''guedfocdsml01'' = ''guedfocdsml01''"
  "\<not> has_known_suffix default_name_manager ''guedfocnlq03''"
  "\<not> has_known_suffix default_name_manager ''guedfocdsml01''"
  by (simp_all add: nm_map_vanity_to_hostname_def clean_vm_name_def default_name_manager_def
      endswith_def has_known_suffix_def)

lemma nm_first_vanity_match_hosts:
  "first_vanity_match (vanity_to_hostname default_name_manager) b = Some (v, h) \<Longrightarrow>
   h = ''guedfocnlq03'' \<or> h = ''guedfocdsml01''"
  by (auto simp: default_name_manager_def split: if_splits)

lemma clean_vm_name_fixed:
  "\<not> has_known_suffix mgr s \<Longrightarrow> clean_vm_name mgr s = s"
  by (simp add: clean_vm_name_def has_known_suffix_def strip_first_suffix_none)

lemma clean_vm_name_shorter:
  assumes "has_known_suffix default_name_manager s"
  shows "length (clean_vm_name default_name_manager s) < length s"
proof -
  from assms have "s \<noteq> []"
    by (auto simp: has_known_suffix_def default_name_manager_def endswith_def)
  moreover have "[] \<notin> set (domain_suffixes default_name_manager)"
    by (simp add: default_name_manager_def)
  ultimately show ?thesis
    using assms by (simp add: clean_vm_name_def has_known_suffix_def strip_first_suffix_shorter)
qed

lemma nm_idem_iff:
  "nm_map_vanity_to_hostname default_name_manager (nm_map_vanity_to_hostname default_name_manager x)
     = nm_map_vanity_to_hostname default_name_manager x
   \<longleftrightarrow> \<not> has_known_suffix default_name_manager (nm_map_vanity_to_hostname default_name_manager x)"
proof (cases "first_vanity_match (vanity_to_hostname default_name_manager)
                (clean_vm_name default_name_manager x)")
  case (Some vh)
  obtain v h where vh: "vh = (v, h)" by (cases vh)
  from Some vh have "nm_map_vanity_to_hostname default_name_manager x = h"
    by (simp add: nm_map_vanity_to_hostname_def)
  moreover from Some vh have "h = ''guedfocnlq03'' \<or> h = ''guedfocdsml01''"
    by (auto dest: nm_first_vanity_match_hosts)
  ultimately show ?thesis
    by (auto simp: nm_host_fixed)
next
  case None
  define c where "c = clean_vm_name default_name_manager x"
  from None have y: "nm_map_vanity_to_hostname default_name_manager x = c"
    by (simp add: nm_map_vanity_to_hostname_def c_def)
  show ?thesis
  proof (cases "has_known_suffix default_name_manager c")
    case False
    then have "clean_vm_name default_name_manager c = c" by (rule clean_vm_name_fixed)
    with None False show ?thesis
      by (simp add: y nm_map_vanity_to_hostname_def c_def)
  next
    case True
    then have short: "length (clean_vm_name default_name_manager c) < length c"
      by (rule clean_vm_name_shorter)
    have "nm_map_vanity_to_hostname default_name_manager c \<noteq> c"
    proof (cases "first_vanity_match (vanity_to_hostname default_name_manager)
                    (clean_vm_name default_name_manager c)")
      case None
      with short show ?thesis by (auto simp: nm_map_vanity_to_hostname_def)
    next
      case (Some wk)
      obtain w k where wk: "wk = (w, k)" by (cases wk)
      from Some wk have "nm_map_vanity_to_hostname default_name_manager c = k"
        by (simp add: nm_map_vanity_to_hostname_def)
      moreover from Some wk have "k = ''guedfocnlq03'' \<or> k = ''guedfocdsml01''"
        by (auto dest: nm_first_vanity_match_hosts)
      ultimately show ?thesis using True by (auto simp: nm_host_fixed)
    qed
    with True show ?thesis by (simp add: y)
  qed
qed

text \<open>
  Claim C6, as stated: canonicalizing twice gives the same name as canonicalizing once,
  for every input. It fails for the name manager, which cuts off one known domain
  suffix only: \<^verbatim>\<open>foo.tibco.com.tibco.com\<close> becomes \<^verbatim>\<open>foo.tibco.com\<close>, and that
  becomes \<^verbatim>\<open>foo\<close>.
\<close>

theorem canonicalize_twice_counterexample:
  "nm_map_vanity_to_hostname default_name_manager
     (nm_map_vanity_to_hostname default_name_manager ''foo.tibco.com.tibco.com'')
   \<noteq> nm_map_vanity_to_hostname default_name_manager ''foo.tibco.com.tibco.com''"
  by (simp add: nm_map_vanity_to_hostname_def clean_vm_name_def default_name_manager_def
      endswith_def)

text \<open>
  Claim C6, amended: the handler's canonicalization (first dot-separated label, then the
  vanity table) is idempotent for every input. The name manager's canonicalization
  (cut one known domain suffix, then the vanity table), with its default tables, is
  idempotent exactly on the inputs whose canonical name does not end in a known domain
  suffix again.
\<close>

theorem canonicalize_idempotent_iff:
  "map_vanity_to_hostname (map_vanity_to_hostname x) = map_vanity_to_hostname x
   \<and> (nm_map_vanity_to_hostname default_name_manager
          (nm_map_vanity_to_hostname default_name_manager x)
        = nm_map_vanity_to_hostname default_name_manager x
      \<longleftrightarrow> \<not> has_known_suffix default_name_manager
               (nm_map_vanity_to_hostname default_name_manager x))"
  using map_vanity_to_hostname_idem nm_idem_iff by blast

theorem canonicalize_idempotent_iff_witness:
  "\<not> has_known_suffix default_name_manager
       (nm_map_vanity_to_hostname default_name_manager ''nlq.ibi.systems'')
   \<and> nm_map_vanity_to_hostname default_name_manager
        (nm_map_vanity_to_hostname default_name_manager ''nlq.ibi.systems'') = ''guedfocnlq03''
   \<and> map_vanity_to_hostname (map_vanity_to_hostname ''nlq.ibi.systems'') = ''guedfocnlq03''"
proof -
  have v: "nm_map_vanity_to_hostname default_name_manager ''nlq.ibi.systems'' = ''guedfocnlq03''"
    by (simp add: nm_map_vanity_to_hostname_def clean_vm_name_def default_name_manager_def
        endswith_def)
  have w: "map_vanity_to_hostname ''nlq.ibi.systems'' = ''guedfocnlq03''"
    by (simp add: map_vanity_to_hostname_def first_label_takeWhile VANITY_TO_HOSTNAME_def)
  have n: "\<not> has_known_suffix default_name_manager ''guedfocnlq03''"
    by (simp add: has_known_suffix_def default_name_manager_def endswith_def)
  from canonicalize_idempotent_iff [of "''nlq.ibi.systems''"] v w n show ?thesis
    by simp
qed

section \<open>Directory lookup\<close>

lemma partial_match_none:
  "\<not> list_ex (key_matches n) (map fst m) \<Longrightarrow> partial_match m n = None"
  by (induction m) (auto simp: key_matches_def)

lemma no_match_map_of:
  assumes "\<not> list_ex (key_matches n) (map fst m)"
  shows "map_of m n = None" and "map_of m (lower n) = None"
proof -
  from assms have "n \<notin> set (map fst m)" and "lower n \<notin> set (map fst m)"
    by (auto simp: list_ex_iff key_matches_def)
  then show "map_of m n = None" and "map_of m (lower n) = None"
    by (simp_all add: map_of_eq_None_iff)
qed

lemma get_vm_zone_miss:
  assumes "\<not> list_ex (key_matches (first_label name)) (map fst (vm_zone_map c))"
  shows "fst (get_vm_zone c now name) = None"
  using no_match_map_of[OF assms] partial_match_none[OF assms]
  by (simp add: get_vm_zone_def Let_def)

text \<open>
  Claim C9: with the mapping \<^verbatim>\<open>{"abc": "zone1"}\<close> the lookup of \<^verbatim>\<open>xabc\<close> finds
  no exact and no lower-case key and returns \<^verbatim>\<open>zone1\<close> through the substring
  relation; and a lookup whose label (the name up to its first dot, which is what the
  function compares, and the whole name when it has no dot, as canonical names do)
  matches no key exactly, in lower case or by substring returns \<open>None\<close>, a value and
  not an error.
\<close>

theorem get_vm_zone_substring_fallback:
  "fst (get_vm_zone (c\<lparr>vm_zone_map := [(''abc'', ''zone1'')]\<rparr>) now ''xabc'') = Some ''zone1''
   \<and> map_of [(''abc'', ''zone1'')] (first_label ''xabc'') = None
   \<and> map_of [(''abc'', ''zone1'')] (lower (first_label ''xabc'')) = None
   \<and> (\<not> list_ex (key_matches (first_label name)) (map fst (vm_zone_map d))
        \<longrightarrow> fst (get_vm_zone d t name) = None)
   \<and> (CHR ''.'' \<notin> set name \<longrightarrow> first_label name = name)"
proof -
  have dotfree: "CHR ''.'' \<notin> set name \<longrightarrow> first_label name = name"
    by (auto simp: first_label_takeWhile)
  have fl: "first_label ''xabc'' = ''xabc''"
    by (simp add: first_label_def split_def)
  have lw: "lower ''xabc'' = ''xabc''"
    by (simp add: lower_def lower_char_def is_upper_def)
  have "fst (get_vm_zone (c\<lparr>vm_zone_map := [(''abc'', ''zone1'')]\<rparr>) now ''xabc'') = Some ''zone1''"
    by (simp add: get_vm_zone_def Let_def fl lw)
  moreover have "map_of [(''abc'', ''zone1'')] (first_label ''xabc'') = None"
    by (simp add: fl)
  moreover have "map_of [(''abc'', ''zone1'')] (lower (first_label ''xabc'')) = None"
    by (simp add: fl lw)
  ultimately show ?thesis
    using get_vm_zone_miss dotfree by blast
qed

theorem get_vm_zone_substring_fallback_witness:
  "\<not> list_ex (key_matches (first_label ''web01.example.com'')) (map fst [(''abc'', ''zone1'')])
   \<and> fst (get_vm_zone \<lparr>vm_zone_map = [(''abc'', ''zone1'')], last_update = 0, max_age_hours = 1,
                          cache_file = None\<rparr> 5 ''web01.example.com'') = None"
proof -
  have h: "\<not> list_ex (key_matches (first_label ''web01.example.com''))
              (map fst (vm_zone_map \<lparr>vm_zone_map = [(''abc'', ''zone1'')], last_update = 0,
                                     max_age_hours = 1, cache_file = None\<rparr>))"
    by (simp add: first_label_def split_def key_matches_def lower_def lower_char_def is_upper_def)
  from h get_vm_zone_substring_fallback
         [of "\<lparr>vm_zone_map = [], last_update = 0, max_age_hours = 1, cache_file = None\<rparr>" 5
             "''web01.example.com''"
             "\<lparr>vm_zone_map = [(''abc'', ''zone1'')], last_update = 0, max_age_hours = 1,
               cache_file = None\<rparr>" 5]
  show ?thesis by simp
qed


section \<open>Error sanitizing\<close>

lemma has_pair_startswith:
  "startswith s p \<Longrightarrow> has_pair a b p \<Longrightarrow> has_pair a b s"
proof (induction s p rule: startswith.induct)
  case (3 c cs p ps)
  then show ?case
    by (cases ps; cases cs) auto
qed simp_all

lemma has_pair_Cons: "has_pair a b s \<Longrightarrow> has_pair a b (c # s)"
  by (cases s) auto

lemma has_pair_py_in:
  "py_in p s \<Longrightarrow> has_pair a b p \<Longrightarrow> has_pair a b s"
  by (induction s) (auto dest: has_pair_startswith intro: has_pair_Cons)

lemma has_pair_append:
  "has_pair a b (xs @ ys) \<longleftrightarrow>
     has_pair a b xs \<or> has_pair a b ys \<or> (xs \<noteq> [] \<and> ys \<noteq> [] \<and> last xs = a \<and> hd ys = b)"
proof (induction a b xs rule: has_pair.induct)
  case (1 a b)
  then show ?case by simp
next
  case (2 a b x)
  then show ?case by (cases ys) auto
next
  case (3 a b x y ys)
  then show ?case by auto
qed

lemma has_pair_absent: "a \<notin> set s \<Longrightarrow> \<not> has_pair a b s"
  by (induction a b s rule: has_pair.induct) auto

text \<open>
  The not-found message never contains a blank followed by \<open>4\<close> when the name has no
  blank, so it never contains \<^verbatim>\<open>HTTPError 404\<close>.
\<close>

lemma not_found_message_no_pair:
  assumes "CHR '' '' \<notin> set n"
  shows "\<not> has_pair CHR '' '' CHR ''4'' (not_found_message n)"
proof -
  define A where "A = ''Error: VM '' @ apos"
  define B where "B = apos @ '' not found. Please verify the VM name and try again.''"
  have msg: "not_found_message n = A @ (n @ B)"
    by (simp add: not_found_message_def A_def B_def)
  have n: "\<not> has_pair CHR '' '' CHR ''4'' n"
    using assms by (rule has_pair_absent)
  have l: "n \<noteq> [] \<Longrightarrow> last n \<noteq> CHR '' ''"
    using assms last_in_set by metis
  have a: "\<not> has_pair CHR '' '' CHR ''4'' A" and la: "last A \<noteq> CHR '' ''"
    by (simp_all add: A_def apos_def)
  have b: "\<not> has_pair CHR '' '' CHR ''4'' B"
    by (simp add: B_def apos_def)
  have nb: "\<not> has_pair CHR '' '' CHR ''4'' (n @ B)"
    using n b l by (simp only: has_pair_append) blast
  show ?thesis
    unfolding msg using a la nb by (simp only: has_pair_append) blast
qed

lemma vm_name_chars_no_space: "list_all vm_name_char n \<Longrightarrow> CHR '' '' \<notin> set n"
  by (auto simp: list_all_iff vm_name_char_def is_space_def)

lemma startswith_takeWhile:
  assumes "startswith s p"
  shows "startswith s (p @ takeWhile P (drop (length p) s))"
proof -
  from assms obtain r where "s = p @ r"
    by (auto simp: startswith_prefix prefix_def)
  then show ?thesis
    by (simp add: startswith_prefix takeWhile_is_prefix)
qed

text \<open>What the regular expression captures: a non-empty run of name characters that follows
  \<^verbatim>\<open>instances/\<close> in the raw text.\<close>

lemma search_instances_Some:
  "search_instances e = Some n \<Longrightarrow>
   n \<noteq> [] \<and> list_all vm_name_char n \<and> py_in (''instances/'' @ n) e"
proof (induction e)
  case Nil
  then show ?case by simp
next
  case (Cons c cs)
  show ?case
  proof (cases "startswith (c # cs) ''instances/''
         \<and> takeWhile vm_name_char (drop (length ''instances/'') (c # cs)) \<noteq> []")
    case True
    with Cons.prems have n: "n = takeWhile vm_name_char (drop (length ''instances/'') (c # cs))"
      by (simp del: startswith.simps)
    from True have "startswith (c # cs) (''instances/'' @ n)"
      unfolding n by (intro startswith_takeWhile) simp
    then have "py_in (''instances/'' @ n) (c # cs)"
      by (simp del: startswith.simps)
    moreover have "list_all vm_name_char n"
      unfolding n by (simp add: list_all_iff) (meson set_takeWhileD)
    moreover from True have "n \<noteq> []" unfolding n by blast
    ultimately show ?thesis by blast
  next
    case False
    with Cons.prems have "search_instances cs = Some n"
      by (simp del: startswith.simps split: if_splits)
    with Cons.IH have "n \<noteq> [] \<and> list_all vm_name_char n \<and> py_in (''instances/'' @ n) cs"
      by blast
    then show ?thesis by simp
  qed
qed

lemma sanitize_fixed_messages:
  "sanitize_error permission_message = permission_message"
  "sanitize_error generic_message = generic_message"
  by (simp_all add: sanitize_error_def permission_message_def generic_message_def lower_def
      lower_char_def is_upper_def)

lemma not_found_not_fixed:
  assumes "py_in ''HTTPError 404'' e"
  shows "not_found_message (case search_instances e of Some g \<Rightarrow> g | None \<Rightarrow> ''the specified VM'')
           \<noteq> e"
proof
  assume eq: "not_found_message
                (case search_instances e of Some g \<Rightarrow> g | None \<Rightarrow> ''the specified VM'') = e"
  from assms have pair: "has_pair CHR '' '' CHR ''4'' e"
    by (rule has_pair_py_in) simp
  show False
  proof (cases "search_instances e")
    case None
    with eq have "e = not_found_message ''the specified VM''" by simp
    with pair show False
      by (simp add: not_found_message_def apos_def)
  next
    case (Some n)
    then have "CHR '' '' \<notin> set n"
      by (auto dest: search_instances_Some vm_name_chars_no_space)
    then have "\<not> has_pair CHR '' '' CHR ''4'' (not_found_message n)"
      by (rule not_found_message_no_pair)
    with eq Some pair show False by simp
  qed
qed

lemma sanitize_fixed_iff:
  "sanitize_error e = e \<longleftrightarrow> e = permission_message \<or> e = generic_message"
proof
  assume "sanitize_error e = e"
  then show "e = permission_message \<or> e = generic_message"
    using not_found_not_fixed[of e]
    by (auto simp: sanitize_error_def split: if_splits)
next
  assume "e = permission_message \<or> e = generic_message"
  then show "sanitize_error e = e"
    by (auto simp: sanitize_fixed_messages)
qed

lemma sanitize_not_found_name:
  assumes "py_in ''HTTPError 404'' e" and "py_in ''was not found'' e"
  shows "\<exists>n. sanitize_error e = not_found_message n
            \<and> (n = ''the specified VM''
                \<or> n \<noteq> [] \<and> list_all vm_name_char n \<and> py_in (''instances/'' @ n) e)"
proof (cases "search_instances e")
  case None
  with assms have "sanitize_error e = not_found_message ''the specified VM''"
    by (simp add: sanitize_error_def)
  then show ?thesis by blast
next
  case (Some n)
  with assms have "sanitize_error e = not_found_message n"
    by (simp add: sanitize_error_def)
  with search_instances_Some[OF Some] show ?thesis by blast
qed

text \<open>
  The sanitizer on its own: for every raw error text its answer is one of three
  templates. A text with both \<^verbatim>\<open>HTTPError 404\<close> and \<^verbatim>\<open>was not found\<close> gives the
  not-found message, whose only variable part is the name \<^verbatim>\<open>the specified VM\<close> or a
  run of characters without quotes and white space that follows \<^verbatim>\<open>instances/\<close> in
  the text; otherwise a text whose lower-case form has \<^verbatim>\<open>permission\<close> or
  \<^verbatim>\<open>authorized\<close> gives the insufficient-permissions message; every other text gives
  the generic message. The answer differs from the raw text unless the raw text is
  already one of the two fixed messages.
\<close>

lemma sanitize_error_templates:
  "(py_in ''HTTPError 404'' e \<and> py_in ''was not found'' e \<longrightarrow>
      (\<exists>n. sanitize_error e = not_found_message n
          \<and> (n = ''the specified VM''
              \<or> n \<noteq> [] \<and> list_all vm_name_char n \<and> py_in (''instances/'' @ n) e)))
   \<and> (\<not> (py_in ''HTTPError 404'' e \<and> py_in ''was not found'' e)
        \<and> (py_in ''permission'' (lower e) \<or> py_in ''authorized'' (lower e)) \<longrightarrow>
      sanitize_error e = permission_message)
   \<and> (\<not> (py_in ''HTTPError 404'' e \<and> py_in ''was not found'' e)
        \<and> \<not> (py_in ''permission'' (lower e) \<or> py_in ''authorized'' (lower e)) \<longrightarrow>
      sanitize_error e = generic_message)
   \<and> (sanitize_error e = e \<longleftrightarrow> e = permission_message \<or> e = generic_message)"
  using sanitize_not_found_name[of e] sanitize_fixed_iff[of e]
  by (simp add: sanitize_error_def)

lemma sanitize_error_never_verbatim:
  "e \<noteq> permission_message \<Longrightarrow> e \<noteq> generic_message \<Longrightarrow> sanitize_error e \<noteq> e"
  by (simp add: sanitize_fixed_iff)

lemma sanitize_error_gcloud_404:
  "sanitize_error gcloud_404_error = not_found_message ''vm9''"
proof -
  have a: "py_in ''HTTPError 404'' gcloud_404_error"
    by (simp add: gcloud_404_error_def apos_def)
  have b: "py_in ''was not found'' gcloud_404_error"
    by (simp add: gcloud_404_error_def apos_def)
  have s: "search_instances gcloud_404_error = Some ''vm9''"
    by (simp add: gcloud_404_error_def apos_def vm_name_char_def is_space_def)
  show ?thesis
    using a b s by (simp add: sanitize_error_def)
qed

text \<open>
  Claim C2 says that the message the client gets for a raw error of the external tool
  comes from the sanitizer's fixed templates and never carries the raw text. The code
  at this input, the status operation in single-response mode with a describe command
  that exits with code 1 and an error text in which no quote closes the resource path:
  the sanitized message (here the generic one) is computed and not used; the client
  gets the exception with code 404 whose detail holds what follows \<^verbatim>\<open>instances/\<close>
  in the raw text, blanks and the rest of the line included. Streaming mode delivers
  the sanitized message for the same error.
\<close>

theorem json_status_error_bypasses_sanitizer:
  "delivered (execute_operation_json default_config failing_env ''vm1'' ''status''
                (Some ''us-east1-b'') ''10.0.0.7'')
     = HTTPException 404
         (''Error: The resource '' @ apos @ ''vm9 was not found; token=abc123 user=root@corp''
          @ apos @ '' was not found in zone '' @ apos @ ''us-east1-b'' @ apos @ ''.'')
   \<and> sanitize_error unclosed_resource_error = generic_message
   \<and> delivered (execute_vm_operation default_config failing_env ''vm1'' ''status''
                   (Some ''us-east1-b'') ''10.0.0.7'')
       = [format_sse_message ''info'' (Text ''Checking status of VM vm1 in zone us-east1-b''),
          format_sse_message ''error'' (Text generic_message)]"
proof -
  have r: "search_resource unclosed_resource_error
             = Some ''vm9 was not found; token=abc123 user=root@corp''"
    by (simp add: unclosed_resource_error_def resource_prefix_def apos_def not_quote_def)
  have g: "sanitize_error unclosed_resource_error = generic_message"
    by (simp add: sanitize_error_def unclosed_resource_error_def apos_def lower_def
        lower_char_def is_upper_def)
  have m: "map_vanity_to_hostname ''vm1'' = ''vm1''" "get_vanity_name ''vm1'' = ''vm1''"
    by (simp_all add: map_vanity_to_hostname_def get_vanity_name_def first_label_takeWhile
        VANITY_TO_HOSTNAME_def)
  have a: "is_vm_allowed_for_operation default_config ''vm1'' ''status''"
    by (simp add: is_vm_allowed_for_operation_def default_config_def lower_def lower_char_def
        is_upper_def)
  have j: "delivered (execute_operation_json default_config failing_env ''vm1'' ''status''
                (Some ''us-east1-b'') ''10.0.0.7'')
     = HTTPException 404
         (''Error: The resource '' @ apos @ ''vm9 was not found; token=abc123 user=root@corp''
          @ apos @ '' was not found in zone '' @ apos @ ''us-east1-b'' @ apos @ ''.'')"
    by (simp add: execute_operation_json_def Let_def m a zone_value_def json_run_def
        json_status_def failing_env_def r split_beta)
  have v: "delivered (execute_vm_operation default_config failing_env ''vm1'' ''status''
                   (Some ''us-east1-b'') ''10.0.0.7'')
       = [format_sse_message ''info'' (Text ''Checking status of VM vm1 in zone us-east1-b''),
          format_sse_message ''error'' (Text generic_message)]"
    by (simp add: execute_vm_operation_def Let_def m a zone_value_def sse_run_def
        sse_status_def failing_env_def g split_beta)
  from j g v show ?thesis by blast
qed

section \<open>Directory refresh\<close>

lemma get_vm_zone_empty: "vm_zone_map c = [] \<Longrightarrow> fst (get_vm_zone c t name) = None"
  by (simp add: get_vm_zone_def Let_def)

lemma update_cache_file:
  "vm_zone_map (fst (update_cache lz li now c)) = [] \<Longrightarrow>
   cache_file (fst (update_cache lz li now c)) = cache_file c"
  by (auto simp: update_cache_def Let_def split_beta save_to_pickle_def
      split: proc_result.splits if_splits)

lemma update_cache_listing_failed:
  "vm_zone_map (fst (update_cache (LaunchFailure msg) li now c)) = []"
  "rc \<noteq> 0 \<or> nonempty_lines out = [] \<Longrightarrow>
   vm_zone_map (fst (update_cache (Exited rc out err) li now c)) = []"
  by (auto simp: update_cache_def Let_def)

lemma store_vms_Nil: "store_vms zn [] m = m"
  by simp

lemma scan_zones_no_vms:
  "list_all (\<lambda>z. lists_no_vm (li z)) zones \<Longrightarrow> fst (scan_zones li zones []) = []"
proof (induction zones)
  case Nil
  then show ?case by simp
next
  case (Cons z zones)
  then show ?case
    by (cases "li z") (auto simp: lists_no_vm_def split_beta Let_def)
qed

text \<open>
  A refresh that finds no VM in any zone leaves the mapping empty as well, so that no
  lookup succeeds after it.
\<close>

lemma update_cache_no_vms:
  assumes "list_all (\<lambda>z. lists_no_vm (li z)) (nonempty_lines out)"
  shows "vm_zone_map (fst (update_cache (Exited rc out err) li now c)) = []"
  using scan_zones_no_vms[OF assms]
  by (simp add: update_cache_def Let_def split_beta)

lemma empty_refresh_misses:
  "vm_zone_map (fst (update_cache lz li now c)) = [] \<Longrightarrow>
   fst (get_vm_zone (fst (update_cache lz li now c)) t name) = None"
  by (rule get_vm_zone_empty)

text \<open>
  Claim C3 says that after a refresh that produces an empty mapping every lookup that
  succeeded before still returns the same zone. The code at this input: the cache knows
  \<^verbatim>\<open>web01\<close>, in memory and in its snapshot. The refresh empties the mapping before
  it lists the zones, so whether the zone listing fails, finds no zone, or finds two
  zones without a VM, \<^verbatim>\<open>web01\<close> is not found afterwards; and the save that the
  server makes at shutdown then replaces the good snapshot by the empty mapping.
\<close>

theorem empty_refresh_loses_mapping:
  "fst (get_vm_zone one_vm_cache 5 ''web01'') = Some ''us-east1-b''
   \<and> fst (get_vm_zone (fst (update_cache failed_listing instances_by_zone 6 one_vm_cache))
            7 ''web01'') = None
   \<and> fst (get_vm_zone (fst (update_cache empty_zone_listing instances_by_zone 6 one_vm_cache))
            7 ''web01'') = None
   \<and> fst (get_vm_zone (fst (update_cache two_zone_listing no_instances 6 one_vm_cache))
            7 ''web01'') = None
   \<and> cache_file (fst (update_cache failed_listing instances_by_zone 6 one_vm_cache))
       = Some ([(''web01'', ''us-east1-b'')], 0)
   \<and> cache_file (save_to_pickle 8
                   (fst (update_cache failed_listing instances_by_zone 6 one_vm_cache)))
       = Some ([], 8)"
proof -
  have e: "nonempty_lines [] = []"
    by (simp add: nonempty_lines_def strip_def split_def)
  have g0: "fst (get_vm_zone one_vm_cache 5 ''web01'') = Some ''us-east1-b''"
    by (simp add: one_vm_cache_def get_vm_zone_def Let_def first_label_takeWhile)
  have m1: "vm_zone_map (fst (update_cache failed_listing instances_by_zone 6 one_vm_cache)) = []"
    by (simp add: failed_listing_def update_cache_def)
  have m2: "vm_zone_map (fst (update_cache empty_zone_listing instances_by_zone 6 one_vm_cache)) = []"
    by (simp add: empty_zone_listing_def update_cache_def e)
  have "list_all (\<lambda>z. lists_no_vm (no_instances z))
          (nonempty_lines (''us-east1-b'' @ [CHR 0x0A] @ ''us-west1-a'' @ [CHR 0x0A]))"
    by (simp add: list_all_iff no_instances_def lists_no_vm_def e)
  then have m3: "vm_zone_map (fst (update_cache two_zone_listing no_instances 6 one_vm_cache)) = []"
    unfolding two_zone_listing_def by (rule update_cache_no_vms)
  have f1: "cache_file (fst (update_cache failed_listing instances_by_zone 6 one_vm_cache))
              = Some ([(''web01'', ''us-east1-b'')], 0)"
    by (simp add: failed_listing_def update_cache_def one_vm_cache_def)
  have f2: "cache_file (save_to_pickle 8
                   (fst (update_cache failed_listing instances_by_zone 6 one_vm_cache)))
              = Some ([], 8)"
    by (simp add: save_to_pickle_def m1)
  show ?thesis
    using g0 get_vm_zone_empty[OF m1] get_vm_zone_empty[OF m2] get_vm_zone_empty[OF m3] f1 f2
    by blast
qed

text \<open>
  Every mapping that is visible while the refresh is suspended is the mapping that the
  loop has built from the zones scanned so far.
\<close>

lemma scan_zones_states_prefix:
  "i < length (scan_zones_states li zones m) \<Longrightarrow>
   scan_zones_states li zones m ! i = fst (scan_zones li (take i zones) m)"
proof (induction zones arbitrary: m i)
  case Nil
  then show ?case by simp
next
  case (Cons z zones)
  show ?case
  proof (cases i)
    case 0
    then show ?thesis by simp
  next
    case (Suc j)
    with Cons.prems Cons.IH show ?thesis
      by (cases "li z") (auto simp: split_beta Let_def)
  qed
qed

lemma update_cache_states_prefix:
  assumes "list_zones = Exited 0 out err"
      and "Suc i < length (update_cache_states list_zones li c)"
  shows "update_cache_states list_zones li c ! Suc i
           = fst (scan_zones li (take i (nonempty_lines out)) [])"
  using assms by (simp add: update_cache_states_def scan_zones_states_prefix)

text \<open>
  Claim C4 says that a lookup sees either the whole mapping from before the refresh or
  the whole mapping from after it. The code at this input: the cache knows
  \<^verbatim>\<open>web01\<close>; the refresh finds \<^verbatim>\<open>alpha\<close> in the first zone and \<^verbatim>\<open>beta\<close> in the
  second. At its first two suspension points the mapping is empty, and while the second
  zone is being listed it holds \<^verbatim>\<open>alpha\<close> only. A lookup served then finds
  \<^verbatim>\<open>alpha\<close>, which the mapping before the refresh did not have, and misses
  \<^verbatim>\<open>beta\<close>, which the mapping after the refresh has.
\<close>

theorem refresh_exposes_partial_mapping:
  "update_cache_states two_zone_listing instances_by_zone one_vm_cache
     = [[], [], [(''alpha'', ''us-east1-b'')]]
   \<and> vm_zone_map one_vm_cache = [(''web01'', ''us-east1-b'')]
   \<and> vm_zone_map (fst (update_cache two_zone_listing instances_by_zone 10 one_vm_cache))
       = [(''alpha'', ''us-east1-b''), (''beta'', ''us-west1-a'')]
   \<and> fst (get_vm_zone one_vm_cache 5 ''alpha'') = None
   \<and> lookup_during_refresh two_zone_listing instances_by_zone one_vm_cache 2 5 ''alpha''
       = Some ''us-east1-b''
   \<and> lookup_during_refresh two_zone_listing instances_by_zone one_vm_cache 2 5 ''beta'' = None
   \<and> fst (get_vm_zone (fst (update_cache two_zone_listing instances_by_zone 10 one_vm_cache))
            11 ''beta'') = Some ''us-west1-a''"
proof -
  have l: "nonempty_lines (''us-east1-b'' @ [CHR 0x0A] @ ''us-west1-a'' @ [CHR 0x0A])
             = [''us-east1-b'', ''us-west1-a'']"
    by (simp add: nonempty_lines_def strip_def is_space_def split_def)
  have a: "nonempty_lines (''alpha'' @ [CHR 0x0A]) = [''alpha'']"
    by (simp add: nonempty_lines_def strip_def is_space_def split_def)
  have b: "nonempty_lines (''beta'' @ [CHR 0x0A]) = [''beta'']"
    by (simp add: nonempty_lines_def strip_def is_space_def split_def)
  have lw: "lower ''alpha'' = ''alpha''" "lower ''beta'' = ''beta''"
    by (simp_all add: lower_def lower_char_def is_upper_def)
  have s: "update_cache_states two_zone_listing instances_by_zone one_vm_cache
             = [[], [], [(''alpha'', ''us-east1-b'')]]"
    using l a b lw by (simp add: update_cache_states_def two_zone_listing_def instances_by_zone_def)
  have u: "vm_zone_map (fst (update_cache two_zone_listing instances_by_zone 10 one_vm_cache))
             = [(''alpha'', ''us-east1-b''), (''beta'', ''us-west1-a'')]"
    using l a b lw
    by (simp add: update_cache_def two_zone_listing_def instances_by_zone_def Let_def
        save_to_pickle_def)
  have fl: "first_label ''alpha'' = ''alpha''" "first_label ''beta'' = ''beta''"
    by (simp_all add: first_label_takeWhile)
  have g1: "fst (get_vm_zone one_vm_cache 5 ''alpha'') = None"
    by (simp add: get_vm_zone_def one_vm_cache_def Let_def fl lw)
  have g2: "lookup_during_refresh two_zone_listing instances_by_zone one_vm_cache 2 5 ''alpha''
              = Some ''us-east1-b''"
    by (simp add: lookup_during_refresh_def s get_vm_zone_def Let_def fl)
  have g3: "lookup_during_refresh two_zone_listing instances_by_zone one_vm_cache 2 5 ''beta'' = None"
    by (simp add: lookup_during_refresh_def s get_vm_zone_def Let_def fl lw)
  have g4: "fst (get_vm_zone (fst (update_cache two_zone_listing instances_by_zone 10 one_vm_cache))
              11 ''beta'') = Some ''us-west1-a''"
    by (simp add: get_vm_zone_def Let_def fl u)
  show ?thesis
    using s u g1 g2 g3 g4 by (simp add: one_vm_cache_def)
qed

text \<open>
  Claim C7 says that a refresh whose zone listing fails goes on with a fixed list of
  zones. The code at this input: \<^verbatim>\<open>update_cache\<close> returns at once, with the mapping
  emptied and no zone scanned, whatever the instance listings would give. The fallback
  exists in \<^verbatim>\<open>ZoneManager.get_all_zones\<close>, which the refresh does not call.
\<close>

theorem failed_zone_listing_scans_nothing:
  "update_cache failed_listing li now c = (c\<lparr>vm_zone_map := []\<rparr>, [])
   \<and> get_all_zones regions json_names failed_listing = fallback_zones"
  by (simp add: update_cache_def failed_listing_def get_all_zones_def)


section \<open>The operation executor\<close>

text \<open>The check is made on the canonical name, and canonicalizing it again changes nothing.\<close>

lemma allowed_on_real:
  "is_vm_allowed_for_operation cfg (map_vanity_to_hostname vmname) op
   \<longleftrightarrow> lower op \<notin> set (RESTRICTED_OPERATIONS cfg)
       \<or> map_vanity_to_hostname vmname \<in> set (ALLOWED_VMS cfg)"
  by (simp add: is_vm_allowed_for_operation_def map_vanity_to_hostname_idem)

lemma split_acc_nonempty: "split_acc acc sep s \<noteq> []"
  by (induction s arbitrary: acc) auto

lemma split_length: "1 \<le> length (split s sep)"
  using split_acc_nonempty[of "[]" sep s] by (cases "split_acc [] sep s") (auto simp: split_def)

subsection \<open>Rows written after the row \<open>started\<close>\<close>

lemma sse_status_rows:
  "map status (snd (sse_status env real vanity op z ip res))
     \<in> {[''completed''], [''failed''], [''error'']}"
  "\<forall>r \<in> set (snd (sse_status env real vanity op z ip res)). vm_name r = real"
  using split_length[of "strip out" "CHR '',''" for out]
  by (auto simp: sse_status_def sse_exception_def log_operation_def Let_def
      split: proc_result.splits)

lemma sse_mutating_rows:
  "map status (snd (sse_mutating env real vanity op z ip res))
     \<in> {[''completed''], [''failed''], [''error'']}"
  "\<forall>r \<in> set (snd (sse_mutating env real vanity op z ip res)). vm_name r = real"
  by (auto simp: sse_mutating_def sse_exception_def log_operation_def Let_def split_beta
      split: proc_result.splits option.splits)

lemma json_status_rows:
  "map status (snd (json_status env real vanity op z ip res))
     \<in> {[''completed''], [''failed''], [''error'']}"
  "\<forall>r \<in> set (snd (json_status env real vanity op z ip res)). vm_name r = real"
  by (auto simp: json_status_def json_exception_def log_operation_def Let_def
      split: proc_result.splits sum.splits option.splits)

lemma json_mutating_rows:
  "map status (snd (json_mutating env real vanity op z ip res))
     \<in> {[''completed''], [''failed''], [''error'']}"
  "\<forall>r \<in> set (snd (json_mutating env real vanity op z ip res)). vm_name r = real"
  by (auto simp: json_mutating_def json_exception_def log_operation_def Let_def
      split: proc_result.splits)

subsection \<open>What a run after the zone is known targets\<close>

lemma sse_run_rows:
  "\<forall>r \<in> set (records (sse_run env real vanity op z ip ls)). vm_name r = real"
  using sse_status_rows(2)[of env real vanity op z ip]
    sse_mutating_rows(2)[of env real vanity op z ip]
  by (auto simp: sse_run_def Let_def split_beta log_operation_def split: option.splits)

lemma sse_run_commands:
  "\<forall>cmd \<in> set (commands (sse_run env real vanity op z ip ls)). cmd ! 4 = real"
  by (auto simp: sse_run_def Let_def split_beta status_command_def get_gcloud_command_def
      split: option.splits if_splits)

lemma sse_run_lookups:
  "zone_lookups (sse_run env real vanity op z ip ls) = ls"
  by (auto simp: sse_run_def Let_def split_beta split: option.splits)

lemma sse_run_started:
  "\<exists>rest. map status (records (sse_run env real vanity op z ip ls)) = ''started'' # rest"
  by (auto simp: sse_run_def Let_def split_beta log_operation_def split: option.splits)

lemma sse_run_not_denied:
  "map status (records (sse_run env real vanity op z ip ls)) \<noteq> [''denied'']"
  using sse_run_started[of env real vanity op z ip ls] by auto

lemma json_run_rows:
  "\<forall>r \<in> set (records (json_run env real vanity op z ip ls)). vm_name r = real"
  using json_status_rows(2)[of env real vanity op z ip]
    json_mutating_rows(2)[of env real vanity op z ip]
  by (auto simp: json_run_def Let_def split_beta log_operation_def json_exception_def
      split: option.splits)

lemma json_run_commands:
  "\<forall>cmd \<in> set (commands (json_run env real vanity op z ip ls)). cmd ! 4 = real"
  by (auto simp: json_run_def Let_def split_beta json_status_command_def get_gcloud_command_def
      split: option.splits if_splits)

lemma json_run_lookups:
  "zone_lookups (json_run env real vanity op z ip ls) = ls"
  by (auto simp: json_run_def Let_def split_beta split: option.splits)

lemma json_run_started:
  "\<exists>rest. map status (records (json_run env real vanity op z ip ls)) = ''started'' # rest"
  by (auto simp: json_run_def Let_def split_beta log_operation_def split: option.splits)

lemma json_run_not_denied:
  "map status (records (json_run env real vanity op z ip ls)) \<noteq> [''denied'']"
  using json_run_started[of env real vanity op z ip ls] by auto

subsection \<open>Denial\<close>

text \<open>
  Claim C1: when the operation is restricted (its lower-case form is in
  \<^verbatim>\<open>RESTRICTED_OPERATIONS\<close>, the test the code makes) and the canonical name of the VM
  is not in \<^verbatim>\<open>ALLOWED_VMS\<close>, then in streaming mode and in single-response mode
  alike no child process is started, the cache is not asked, exactly one denial is
  delivered (one error message, or the exception with code 403), and exactly one row
  is logged, with status \<open>denied\<close>.
\<close>

theorem denied_operation_launches_nothing:
  assumes "lower op \<in> set (RESTRICTED_OPERATIONS cfg)"
      and "map_vanity_to_hostname vmname \<notin> set (ALLOWED_VMS cfg)"
  shows "commands (execute_vm_operation cfg env vmname op zn ip) = []
       \<and> zone_lookups (execute_vm_operation cfg env vmname op zn ip) = []
       \<and> delivered (execute_vm_operation cfg env vmname op zn ip)
           = [format_sse_message ''error'' (Text (denial_message cfg op vmname))]
       \<and> map status (records (execute_vm_operation cfg env vmname op zn ip)) = [''denied'']
       \<and> commands (execute_operation_json cfg env vmname op zn ip) = []
       \<and> zone_lookups (execute_operation_json cfg env vmname op zn ip) = []
       \<and> delivered (execute_operation_json cfg env vmname op zn ip)
           = HTTPException 403 (denial_message cfg op vmname)
       \<and> map status (records (execute_operation_json cfg env vmname op zn ip)) = [''denied'']"
proof -
  from assms have "\<not> is_vm_allowed_for_operation cfg (map_vanity_to_hostname vmname) op"
    by (simp add: allowed_on_real)
  then show ?thesis
    by (simp add: execute_vm_operation_def execute_operation_json_def Let_def log_operation_def)
qed

theorem denied_operation_launches_nothing_witness:
  "lower ''suspend'' \<in> set (RESTRICTED_OPERATIONS default_config)
   \<and> map_vanity_to_hostname ''otherhost'' \<notin> set (ALLOWED_VMS default_config)
   \<and> commands (execute_vm_operation default_config quiet_env ''otherhost'' ''suspend'' None
                  ''10.0.0.7'') = []
   \<and> map status (records (execute_vm_operation default_config quiet_env ''otherhost''
                            ''suspend'' None ''10.0.0.7'')) = [''denied'']
   \<and> commands (execute_operation_json default_config quiet_env ''otherhost'' ''suspend'' None
                  ''10.0.0.7'') = []
   \<and> map status (records (execute_operation_json default_config quiet_env ''otherhost''
                            ''suspend'' None ''10.0.0.7'')) = [''denied'']"
proof -
  have r: "lower ''suspend'' \<in> set (RESTRICTED_OPERATIONS default_config)"
    by (simp add: default_config_def lower_def lower_char_def is_upper_def)
  have a: "map_vanity_to_hostname ''otherhost'' \<notin> set (ALLOWED_VMS default_config)"
    by (simp add: default_config_def map_vanity_to_hostname_def first_label_takeWhile
        VANITY_TO_HOSTNAME_def)
  from denied_operation_launches_nothing [OF r a, of quiet_env None "''10.0.0.7''"] r a
  show ?thesis by simp
qed

subsection \<open>The row \<open>started\<close> and its terminal row\<close>

text \<open>
  For the five operations of the command table, the row \<open>started\<close> is followed by
  exactly one of \<open>completed\<close>, \<open>failed\<close> and \<open>error\<close>, in both modes.
\<close>

lemma sse_run_known_operation:
  assumes "op \<in> set [''status'', ''start'', ''stop'', ''suspend'', ''resume'']"
  shows "map status (records (sse_run env real vanity op z ip ls))
           \<in> {[''started'', ''completed''], [''started'', ''failed''], [''started'', ''error'']}"
proof (cases "op = ''status''")
  case True
  then show ?thesis
    using sse_status_rows(1)[of env real vanity op z ip "run_process env (status_command real z)"]
    by (auto simp: sse_run_def Let_def split_beta log_operation_def)
next
  case False
  with assms obtain cmd where "get_gcloud_command op real z = Some cmd"
    by (auto simp: get_gcloud_command_def)
  with False show ?thesis
    using sse_mutating_rows(1)[of env real vanity op z ip "run_process env cmd"]
    by (auto simp: sse_run_def Let_def split_beta log_operation_def)
qed

lemma json_run_known_operation:
  assumes "op \<in> set [''status'', ''start'', ''stop'', ''suspend'', ''resume'']"
  shows "map status (records (json_run env real vanity op z ip ls))
           \<in> {[''started'', ''completed''], [''started'', ''failed''], [''started'', ''error'']}"
proof (cases "op = ''status''")
  case True
  then show ?thesis
    using json_status_rows(1)[of env real vanity op z ip
        "run_process env (json_status_command real z)"]
    by (auto simp: json_run_def Let_def split_beta log_operation_def)
next
  case False
  with assms obtain cmd where "get_gcloud_command op real z = Some cmd"
    by (auto simp: get_gcloud_command_def)
  with False assms show ?thesis
    using json_mutating_rows(1)[of env real vanity op z ip "run_process env cmd"]
    by (auto simp: json_run_def Let_def split_beta log_operation_def)
qed

text \<open>
  Claim C5 says that a run that logs \<open>started\<close> then logs exactly one terminal row,
  also when the operation name has no external command. The code at this input, the
  operation \<^verbatim>\<open>restart\<close> on \<^verbatim>\<open>vm1\<close> with a zone given: the row \<open>started\<close> is
  the only row; streaming mode then delivers the message \<^verbatim>\<open>Invalid operation\<close> and
  returns, single-response mode raises the exception with code 400, which is passed on
  without a row.
\<close>

theorem unknown_operation_started_without_terminal:
  "map status (records (execute_vm_operation default_config env ''vm1'' ''restart''
                          (Some ''us-east1-b'') ''10.0.0.7'')) = [''started'']
   \<and> delivered (execute_vm_operation default_config env ''vm1'' ''restart''
                   (Some ''us-east1-b'') ''10.0.0.7'')
       = [format_sse_message ''error'' (Text ''Invalid operation: restart'')]
   \<and> map status (records (execute_operation_json default_config env ''vm1'' ''restart''
                            (Some ''us-east1-b'') ''10.0.0.7'')) = [''started'']
   \<and> delivered (execute_operation_json default_config env ''vm1'' ''restart''
                   (Some ''us-east1-b'') ''10.0.0.7'')
       = HTTPException 400 ''Invalid operation: restart''"
  by (simp add: execute_vm_operation_def execute_operation_json_def Let_def default_config_def
      is_vm_allowed_for_operation_def lower_def lower_char_def is_upper_def zone_value_def sse_run_def
      json_run_def get_gcloud_command_def log_operation_def)

subsection \<open>The status operation in streaming mode\<close>

text \<open>
  Whatever a successful describe command prints, the run ends in the success message
  and the row \<open>completed\<close>: the parse-failure branch is never taken.
\<close>

lemma status_success_any_output:
  "map event (delivered (execute_vm_operation default_config
       (env\<lparr>run_process := \<lambda>cmd. Exited 0 out err\<rparr>) vmname ''status'' (Some (z # zs)) ip))
     = [''info'', ''status'', ''success'']
   \<and> map status (records (execute_vm_operation default_config
       (env\<lparr>run_process := \<lambda>cmd. Exited 0 out err\<rparr>) vmname ''status'' (Some (z # zs)) ip))
     = [''started'', ''completed'']"
  using split_length[of "strip out" "CHR '',''"]
  by (simp add: execute_vm_operation_def Let_def default_config_def
      is_vm_allowed_for_operation_def lower_def lower_char_def is_upper_def zone_value_def sse_run_def
      sse_status_def split_beta format_sse_message_def log_operation_def)

text \<open>
  Claim C8 says that a describe record with no usable field gives a parse-failure error
  instead of a success. The code at this input, a describe command that exits with
  code 0 and prints nothing: the run delivers the status with an empty state and the
  two \<open>unknown\<close> defaults, then the success message, and logs \<open>completed\<close>.
\<close>

theorem empty_status_output_reported_as_success:
  "delivered (execute_vm_operation default_config quiet_env ''vm1'' ''status''
                (Some ''us-east1-b'') ''10.0.0.7'')
     = [format_sse_message ''info'' (Text ''Checking status of VM vm1 in zone us-east1-b''),
        format_sse_message ''status''
          (StatusJson \<lparr> info_name = ''vm1'', info_vanity_name = None, info_status = [],
                         info_machine_type = ''unknown'', info_ip_address = ''unknown'',
                         info_zone = ''us-east1-b'' \<rparr>),
        format_sse_message ''success'' (Text ''VM vm1 is  (unknown, IP: unknown)'')]
   \<and> map status (records (execute_vm_operation default_config quiet_env ''vm1'' ''status''
                (Some ''us-east1-b'') ''10.0.0.7'')) = [''started'', ''completed'']"
  by (simp add: execute_vm_operation_def Let_def default_config_def quiet_env_def
      is_vm_allowed_for_operation_def lower_def lower_char_def is_upper_def zone_value_def sse_run_def
      sse_status_def split_beta log_operation_def map_vanity_to_hostname_def get_vanity_name_def
      first_label_takeWhile VANITY_TO_HOSTNAME_def strip_def split_def)

subsection \<open>Vanity prefixes\<close>

lemma vanity_prefix_maps:
  assumes "(vanity, host) \<in> set VANITY_TO_HOSTNAME" and "startswith (first_label vmname) vanity"
  shows "map_vanity_to_hostname vmname = host"
proof -
  from assms(1) consider "vanity = ''nlq''" "host = ''guedfocnlq03''"
    | "vanity = ''py-server''" "host = ''guedfocdsml01''"
    by (auto simp: VANITY_TO_HOSTNAME_def)
  then show ?thesis
  proof cases
    case 1
    with assms(2) show ?thesis
      by (simp add: map_vanity_to_hostname_def VANITY_TO_HOSTNAME_def)
  next
    case 2
    with assms(2) obtain r where "first_label vmname = ''py-server'' @ r"
      by (auto simp: startswith_prefix prefix_def)
    with 2 show ?thesis
      by (simp add: map_vanity_to_hostname_def VANITY_TO_HOSTNAME_def)
  qed
qed

lemma execute_vm_operation_targets:
  "(\<forall>r \<in> set (records (execute_vm_operation cfg env vmname op zn ip)).
       vm_name r = map_vanity_to_hostname vmname)
   \<and> (\<forall>cmd \<in> set (commands (execute_vm_operation cfg env vmname op zn ip)).
       cmd ! 4 = map_vanity_to_hostname vmname)
   \<and> set (zone_lookups (execute_vm_operation cfg env vmname op zn ip))
       \<subseteq> {map_vanity_to_hostname vmname}"
  using sse_run_rows sse_run_commands
  by (auto simp: execute_vm_operation_def Let_def log_operation_def sse_run_lookups
      split: option.splits)

lemma execute_operation_json_targets:
  "(\<forall>r \<in> set (records (execute_operation_json cfg env vmname op zn ip)).
       vm_name r = map_vanity_to_hostname vmname)
   \<and> (\<forall>cmd \<in> set (commands (execute_operation_json cfg env vmname op zn ip)).
       cmd ! 4 = map_vanity_to_hostname vmname)
   \<and> set (zone_lookups (execute_operation_json cfg env vmname op zn ip))
       \<subseteq> {map_vanity_to_hostname vmname}"
  using json_run_rows json_run_commands
  by (auto simp: execute_operation_json_def Let_def log_operation_def json_run_lookups
      split: option.splits)

lemma execute_vm_operation_denied_iff:
  "map status (records (execute_vm_operation cfg env vmname op zn ip)) = [''denied'']
   \<longleftrightarrow> lower op \<in> set (RESTRICTED_OPERATIONS cfg)
       \<and> map_vanity_to_hostname vmname \<notin> set (ALLOWED_VMS cfg)"
  by (simp add: execute_vm_operation_def Let_def log_operation_def allowed_on_real
      sse_run_not_denied split: option.splits)

lemma execute_operation_json_denied_iff:
  "map status (records (execute_operation_json cfg env vmname op zn ip)) = [''denied'']
   \<longleftrightarrow> lower op \<in> set (RESTRICTED_OPERATIONS cfg)
       \<and> map_vanity_to_hostname vmname \<notin> set (ALLOWED_VMS cfg)"
  by (simp add: execute_operation_json_def Let_def log_operation_def allowed_on_real
      json_run_not_denied split: option.splits)

text \<open>
  Claim C10: when the first dot-separated label of the client's identifier starts with
  a vanity prefix of the table, the canonical name is that entry's host name, and in
  both modes the run is about that host: it is denied exactly when the operation is
  restricted and the host is not allowed, the cache is asked for the host only, every
  command started names the host as its instance, and every row logged has the host as
  its VM name.
\<close>

theorem vanity_prefix_targets_mapped_host:
  assumes "(vanity, host) \<in> set VANITY_TO_HOSTNAME"
      and "startswith (first_label vmname) vanity"
  shows "map_vanity_to_hostname vmname = host
       \<and> (map status (records (execute_vm_operation cfg env vmname op zn ip)) = [''denied'']
            \<longleftrightarrow> lower op \<in> set (RESTRICTED_OPERATIONS cfg) \<and> host \<notin> set (ALLOWED_VMS cfg))
       \<and> set (zone_lookups (execute_vm_operation cfg env vmname op zn ip)) \<subseteq> {host}
       \<and> (\<forall>cmd \<in> set (commands (execute_vm_operation cfg env vmname op zn ip)). cmd ! 4 = host)
       \<and> (\<forall>r \<in> set (records (execute_vm_operation cfg env vmname op zn ip)). vm_name r = host)
       \<and> (map status (records (execute_operation_json cfg env vmname op zn ip)) = [''denied'']
            \<longleftrightarrow> lower op \<in> set (RESTRICTED_OPERATIONS cfg) \<and> host \<notin> set (ALLOWED_VMS cfg))
       \<and> set (zone_lookups (execute_operation_json cfg env vmname op zn ip)) \<subseteq> {host}
       \<and> (\<forall>cmd \<in> set (commands (execute_operation_json cfg env vmname op zn ip)). cmd ! 4 = host)
       \<and> (\<forall>r \<in> set (records (execute_operation_json cfg env vmname op zn ip)). vm_name r = host)"
proof -
  have m: "map_vanity_to_hostname vmname = host"
    using assms by (rule vanity_prefix_maps)
  show ?thesis
    using execute_vm_operation_targets[of cfg env vmname op zn ip]
      execute_operation_json_targets[of cfg env vmname op zn ip]
      execute_vm_operation_denied_iff[of cfg env vmname op zn ip]
      execute_operation_json_denied_iff[of cfg env vmname op zn ip]
    unfolding m by simp
qed

theorem vanity_prefix_targets_mapped_host_witness:
  "(''nlq'', ''guedfocnlq03'') \<in> set VANITY_TO_HOSTNAME
   \<and> startswith (first_label ''nlqx.example.org'') ''nlq''
   \<and> map_vanity_to_hostname ''nlqx.example.org'' = ''guedfocnlq03''
   \<and> map vm_name (records (execute_vm_operation default_config quiet_env ''nlqx.example.org''
                             ''stop'' (Some ''us-east1-b'') ''10.0.0.7''))
       = [''guedfocnlq03'', ''guedfocnlq03'']
   \<and> commands (execute_vm_operation default_config quiet_env ''nlqx.example.org''
                  ''stop'' (Some ''us-east1-b'') ''10.0.0.7'')
       = [[''gcloud'', ''compute'', ''instances'', ''stop'', ''guedfocnlq03'', ''--zone'',
           ''us-east1-b'']]"
proof -
  have v: "(''nlq'', ''guedfocnlq03'') \<in> set VANITY_TO_HOSTNAME"
    by (simp add: VANITY_TO_HOSTNAME_def)
  have p: "startswith (first_label ''nlqx.example.org'') ''nlq''"
    by (simp add: first_label_takeWhile)
  have m: "map_vanity_to_hostname ''nlqx.example.org'' = ''guedfocnlq03''"
    by (simp add: map_vanity_to_hostname_def first_label_takeWhile VANITY_TO_HOSTNAME_def)
  have c: "commands (execute_vm_operation default_config quiet_env ''nlqx.example.org''
                  ''stop'' (Some ''us-east1-b'') ''10.0.0.7'')
       = [[''gcloud'', ''compute'', ''instances'', ''stop'', ''guedfocnlq03'', ''--zone'',
           ''us-east1-b'']]"
    by (simp add: execute_vm_operation_def Let_def m default_config_def
        is_vm_allowed_for_operation_def map_host_fixed zone_value_def sse_run_def
        get_gcloud_command_def split_beta)
  have l: "length (records (execute_vm_operation default_config quiet_env ''nlqx.example.org''
                  ''stop'' (Some ''us-east1-b'') ''10.0.0.7'')) = 2"
    by (simp add: execute_vm_operation_def Let_def m default_config_def
        is_vm_allowed_for_operation_def map_host_fixed zone_value_def sse_run_def
        get_gcloud_command_def split_beta sse_mutating_def quiet_env_def readlines_def)
  have e: "\<And>xs :: OperationRecord list. length xs = 2 \<Longrightarrow> \<forall>r \<in> set xs. vm_name r = ''guedfocnlq03''
             \<Longrightarrow> map vm_name xs = [''guedfocnlq03'', ''guedfocnlq03'']"
  proof -
    fix xs :: "OperationRecord list"
    assume "length xs = 2" and "\<forall>r \<in> set xs. vm_name r = ''guedfocnlq03''"
    then show "map vm_name xs = [''guedfocnlq03'', ''guedfocnlq03'']"
      by (cases xs; cases "tl xs") auto
  qed
  from vanity_prefix_targets_mapped_host
         [OF v p, of default_config quiet_env "''stop''" "Some ''us-east1-b''" "''10.0.0.7''"]
  have "\<forall>r \<in> set (records (execute_vm_operation default_config quiet_env ''nlqx.example.org''
                              ''stop'' (Some ''us-east1-b'') ''10.0.0.7'')).
          vm_name r = ''guedfocnlq03''"
    by blast
  with l e have "map vm_name (records (execute_vm_operation default_config quiet_env
                    ''nlqx.example.org'' ''stop'' (Some ''us-east1-b'') ''10.0.0.7''))
                  = [''guedfocnlq03'', ''guedfocnlq03'']"
    by blast
  with v p m c show ?thesis by blast
qed

end
